theory Spec2Isabelle
  imports Main
begin

section \<open>Data model of \<^verbatim>\<open>src/pages/Predictions.tsx\<close>\<close>

text \<open>
  The page component keeps five pieces of React state that the modelled functions touch
  (\<^verbatim>\<open>searchSymbol\<close>, \<^verbatim>\<open>predictions\<close>, \<^verbatim>\<open>currentQuotes\<close>, \<^verbatim>\<open>loading\<close>,
  \<^verbatim>\<open>analyzing\<close>) and talks to three remote services through the Supabase client.
  The numeric fields of a prediction and of a quote are never inspected by the code
  modelled here; they are carried as integers. A JavaScript string is a sequence of
  UTF-16 code units, so it is a list of numbers here (each below 65536 in a real string);
  \<open>js\<close> writes the code units of an ASCII literal.
\<close>

type_synonym jsstring = "nat list"

definition js :: "string \<Rightarrow> jsstring" where
  "js s = map of_char s"

datatype signal_type = Buy | Sell | Hold

record prediction =
  prediction_id :: jsstring
  symbol :: jsstring
  predicted_price :: int
  confidence_score :: int
  signal_type :: signal_type
  created_at :: jsstring
  expires_at :: jsstring

record current_quote =
  quote_symbol :: jsstring
  price :: int
  change :: int
  changePercent :: int

datatype search_result = SearchResult (result_symbol: jsstring)

text \<open>Payloads of the two \<^verbatim>\<open>yahoo-finance-data\<close> actions; a missing field is \<open>None\<close>.\<close>

datatype quotes_data = QuotesData (quotes: "current_quote list option")

datatype search_data = SearchData (results: "search_result list option")

datatype js_error = ServiceError string | TypeError

text \<open>
  What an \<^verbatim>\<open>await\<close> on a Supabase call can do: the promise rejects, or it resolves
  with the object \<^verbatim>\<open>{ data, error }\<close>, either field of which may be null.
\<close>

datatype 'a awaited = Rejects js_error | Resolves "'a option" "js_error option"

text \<open>How an \<^verbatim>\<open>async\<close> function of the page ends.\<close>

datatype completion = Fulfilled | Rejected js_error

text \<open>
  The remote side is a deterministic machine over a state \<open>'w\<close> that the page cannot see:
  every call takes the current remote state and gives the awaited outcome and the next
  remote state.
\<close>

record 'w services =
  select_predictions :: "'w \<Rightarrow> prediction list awaited \<times> 'w"
  invoke_analyze_stock :: "jsstring \<Rightarrow> 'w \<Rightarrow> unit awaited \<times> 'w"
  invoke_current_quotes :: "jsstring list \<Rightarrow> 'w \<Rightarrow> quotes_data awaited \<times> 'w"
  invoke_search_stocks :: "jsstring \<Rightarrow> 'w \<Rightarrow> search_data awaited \<times> 'w"

text \<open>Everything observable that a run does, in order.\<close>

datatype event =
    SelectPredictions
  | AnalyzeStock jsstring
  | CurrentQuotes "jsstring list"
  | SearchStocks jsstring
  | ConsoleLog jsstring
  | ConsoleError jsstring

record 'w page =
  searchSymbol :: jsstring
  predictions :: "prediction list"
  currentQuotes :: "jsstring \<rightharpoonup> current_quote"
  loading :: bool
  analyzing :: bool
  world :: 'w
  trace :: "event list"

section \<open>Calls and console output\<close>

definition emit :: "event \<Rightarrow> 'w page \<Rightarrow> 'w page" where
  "emit ev p = p\<lparr>trace := trace p @ [ev]\<rparr>"

definition call_select :: "'w services \<Rightarrow> 'w page \<Rightarrow> prediction list awaited \<times> 'w page" where
  "call_select sv p =
     (case select_predictions sv (world p) of
        (r, w) \<Rightarrow> (r, emit SelectPredictions (p\<lparr>world := w\<rparr>)))"

definition call_analyze :: "'w services \<Rightarrow> jsstring \<Rightarrow> 'w page \<Rightarrow> unit awaited \<times> 'w page" where
  "call_analyze sv s p =
     (case invoke_analyze_stock sv s (world p) of
        (r, w) \<Rightarrow> (r, emit (AnalyzeStock s) (p\<lparr>world := w\<rparr>)))"

definition call_quotes :: "'w services \<Rightarrow> jsstring list \<Rightarrow> 'w page \<Rightarrow> quotes_data awaited \<times> 'w page" where
  "call_quotes sv ss p =
     (case invoke_current_quotes sv ss (world p) of
        (r, w) \<Rightarrow> (r, emit (CurrentQuotes ss) (p\<lparr>world := w\<rparr>)))"

definition call_search :: "'w services \<Rightarrow> jsstring \<Rightarrow> 'w page \<Rightarrow> search_data awaited \<times> 'w page" where
  "call_search sv q p =
     (case invoke_search_stocks sv q (world p) of
        (r, w) \<Rightarrow> (r, emit (SearchStocks q) (p\<lparr>world := w\<rparr>)))"

section \<open>Library functions the page uses\<close>

text \<open>\<^verbatim>\<open>[...new Set(xs)]\<close>: insertion order, the first occurrence of a value is kept.\<close>

definition set_add :: "'a list \<Rightarrow> 'a \<Rightarrow> 'a list" where
  "set_add acc x = (if x \<in> set acc then acc else acc @ [x])"

definition new_Set :: "'a list \<Rightarrow> 'a list" where
  "new_Set xs = foldl set_add [] xs"

text \<open>
  \<^verbatim>\<open>String.prototype.toUpperCase\<close> maps every code point of the string by the
  upper-case mapping of the Unicode Character Database (here version 14.0: the simple
  mappings of \<^verbatim>\<open>UnicodeData.txt\<close> and the unconditional ones of
  \<^verbatim>\<open>SpecialCasing.txt\<close>) and leaves every other code point as it is. A lead
  surrogate followed by a trail surrogate is one code point; any other code unit is a code
  point by itself.

  The simple mappings beyond ASCII are kept as runs \<open>(lo, hi, step, img)\<close>: the code
  points \<open>lo\<close>, \<open>lo + step\<close>, ... up to \<open>hi\<close> map to \<open>img\<close>, \<open>img + step\<close>, ...
\<close>

definition upper_runs :: "(nat \<times> nat \<times> nat \<times> nat) list" where
  "upper_runs =
     [(181, 181, 1, 924), (224, 246, 1, 192), (248, 254, 1, 216),
      (255, 255, 1, 376), (257, 303, 2, 256), (305, 305, 1, 73), (307, 311, 2, 306),
      (314, 328, 2, 313), (331, 375, 2, 330), (378, 382, 2, 377), (383, 383, 1, 83),
      (384, 384, 1, 579), (387, 389, 2, 386), (392, 392, 1, 391), (396, 396, 1, 395),
      (402, 402, 1, 401), (405, 405, 1, 502), (409, 409, 1, 408), (410, 410, 1, 573),
      (414, 414, 1, 544), (417, 421, 2, 416), (424, 424, 1, 423), (429, 429, 1, 428),
      (432, 432, 1, 431), (436, 438, 2, 435), (441, 441, 1, 440), (445, 445, 1, 444),
      (447, 447, 1, 503), (453, 453, 1, 452), (454, 454, 1, 452), (456, 456, 1, 455),
      (457, 457, 1, 455), (459, 459, 1, 458), (460, 460, 1, 458), (462, 476, 2, 461),
      (477, 477, 1, 398), (479, 495, 2, 478), (498, 498, 1, 497), (499, 499, 1, 497),
      (501, 501, 1, 500), (505, 543, 2, 504), (547, 563, 2, 546), (572, 572, 1, 571),
      (575, 576, 1, 11390), (578, 578, 1, 577), (583, 591, 2, 582), (592, 592, 1, 11375),
      (593, 593, 1, 11373), (594, 594, 1, 11376), (595, 595, 1, 385), (596, 596, 1, 390),
      (598, 599, 1, 393), (601, 601, 1, 399), (603, 603, 1, 400), (604, 604, 1, 42923),
      (608, 608, 1, 403), (609, 609, 1, 42924), (611, 611, 1, 404), (613, 613, 1, 42893),
      (614, 614, 1, 42922), (616, 616, 1, 407), (617, 617, 1, 406), (618, 618, 1, 42926),
      (619, 619, 1, 11362), (620, 620, 1, 42925), (623, 623, 1, 412), (625, 625, 1, 11374),
      (626, 626, 1, 413), (629, 629, 1, 415), (637, 637, 1, 11364), (640, 640, 1, 422),
      (642, 642, 1, 42949), (643, 643, 1, 425), (647, 647, 1, 42929), (648, 648, 1, 430),
      (649, 649, 1, 580), (650, 651, 1, 433), (652, 652, 1, 581), (658, 658, 1, 439),
      (669, 669, 1, 42930), (670, 670, 1, 42928), (837, 837, 1, 921), (881, 883, 2, 880),
      (887, 887, 1, 886), (891, 893, 1, 1021), (940, 940, 1, 902), (941, 943, 1, 904),
      (945, 961, 1, 913), (962, 962, 1, 931), (963, 971, 1, 931), (972, 972, 1, 908),
      (973, 974, 1, 910), (976, 976, 1, 914), (977, 977, 1, 920), (981, 981, 1, 934),
      (982, 982, 1, 928), (983, 983, 1, 975), (985, 1007, 2, 984), (1008, 1008, 1, 922),
      (1009, 1009, 1, 929), (1010, 1010, 1, 1017), (1011, 1011, 1, 895), (1013, 1013, 1, 917),
      (1016, 1016, 1, 1015), (1019, 1019, 1, 1018), (1072, 1103, 1, 1040),
      (1104, 1119, 1, 1024), (1121, 1153, 2, 1120), (1163, 1215, 2, 1162),
      (1218, 1230, 2, 1217), (1231, 1231, 1, 1216), (1233, 1327, 2, 1232),
      (1377, 1414, 1, 1329), (4304, 4346, 1, 7312), (4349, 4351, 1, 7357),
      (5112, 5117, 1, 5104), (7296, 7296, 1, 1042), (7297, 7297, 1, 1044),
      (7298, 7298, 1, 1054), (7299, 7300, 1, 1057), (7301, 7301, 1, 1058),
      (7302, 7302, 1, 1066), (7303, 7303, 1, 1122), (7304, 7304, 1, 42570),
      (7545, 7545, 1, 42877), (7549, 7549, 1, 11363), (7566, 7566, 1, 42950),
      (7681, 7829, 2, 7680), (7835, 7835, 1, 7776), (7841, 7935, 2, 7840),
      (7936, 7943, 1, 7944), (7952, 7957, 1, 7960), (7968, 7975, 1, 7976),
      (7984, 7991, 1, 7992), (8000, 8005, 1, 8008), (8017, 8023, 2, 8025),
      (8032, 8039, 1, 8040), (8048, 8049, 1, 8122), (8050, 8053, 1, 8136),
      (8054, 8055, 1, 8154), (8056, 8057, 1, 8184), (8058, 8059, 1, 8170),
      (8060, 8061, 1, 8186), (8112, 8113, 1, 8120), (8126, 8126, 1, 921),
      (8144, 8145, 1, 8152), (8160, 8161, 1, 8168), (8165, 8165, 1, 8172),
      (8526, 8526, 1, 8498), (8560, 8575, 1, 8544), (8580, 8580, 1, 8579),
      (9424, 9449, 1, 9398), (11312, 11359, 1, 11264), (11361, 11361, 1, 11360),
      (11365, 11365, 1, 570), (11366, 11366, 1, 574), (11368, 11372, 2, 11367),
      (11379, 11379, 1, 11378), (11382, 11382, 1, 11381), (11393, 11491, 2, 11392),
      (11500, 11502, 2, 11499), (11507, 11507, 1, 11506), (11520, 11557, 1, 4256),
      (11559, 11559, 1, 4295), (11565, 11565, 1, 4301), (42561, 42605, 2, 42560),
      (42625, 42651, 2, 42624), (42787, 42799, 2, 42786), (42803, 42863, 2, 42802),
      (42874, 42876, 2, 42873), (42879, 42887, 2, 42878), (42892, 42892, 1, 42891),
      (42897, 42899, 2, 42896), (42900, 42900, 1, 42948), (42903, 42921, 2, 42902),
      (42933, 42947, 2, 42932), (42952, 42954, 2, 42951), (42961, 42961, 1, 42960),
      (42967, 42969, 2, 42966), (42998, 42998, 1, 42997), (43859, 43859, 1, 42931),
      (43888, 43967, 1, 5024), (65345, 65370, 1, 65313), (66600, 66639, 1, 66560),
      (66776, 66811, 1, 66736), (66967, 67003, 2, 66928), (66968, 66977, 1, 66929),
      (66979, 66993, 1, 66940), (66995, 67001, 1, 66956), (67003, 67004, 1, 66964),
      (68800, 68850, 1, 68736), (71872, 71903, 1, 71840), (93792, 93823, 1, 93760),
      (125218, 125251, 1, 125184)]"

text \<open>
  The special mappings, which give more than one code point: the code point and the UTF-16
  code units of its upper-case form, such as \<^verbatim>\<open>U+00DF\<close> to \<^verbatim>\<open>SS\<close>.
\<close>

definition upper_special :: "(nat \<times> nat list) list" where
  "upper_special =
     [(223, [83, 83]), (329, [700, 78]), (496, [74, 780]), (912, [921, 776, 769]),
      (944, [933, 776, 769]), (1415, [1333, 1362]), (7830, [72, 817]), (7831, [84, 776]),
      (7832, [87, 778]), (7833, [89, 778]), (7834, [65, 702]), (8016, [933, 787]),
      (8018, [933, 787, 768]), (8020, [933, 787, 769]), (8022, [933, 787, 834]),
      (8064, [7944, 921]), (8065, [7945, 921]), (8066, [7946, 921]), (8067, [7947, 921]),
      (8068, [7948, 921]), (8069, [7949, 921]), (8070, [7950, 921]), (8071, [7951, 921]),
      (8072, [7944, 921]), (8073, [7945, 921]), (8074, [7946, 921]), (8075, [7947, 921]),
      (8076, [7948, 921]), (8077, [7949, 921]), (8078, [7950, 921]), (8079, [7951, 921]),
      (8080, [7976, 921]), (8081, [7977, 921]), (8082, [7978, 921]), (8083, [7979, 921]),
      (8084, [7980, 921]), (8085, [7981, 921]), (8086, [7982, 921]), (8087, [7983, 921]),
      (8088, [7976, 921]), (8089, [7977, 921]), (8090, [7978, 921]), (8091, [7979, 921]),
      (8092, [7980, 921]), (8093, [7981, 921]), (8094, [7982, 921]), (8095, [7983, 921]),
      (8096, [8040, 921]), (8097, [8041, 921]), (8098, [8042, 921]), (8099, [8043, 921]),
      (8100, [8044, 921]), (8101, [8045, 921]), (8102, [8046, 921]), (8103, [8047, 921]),
      (8104, [8040, 921]), (8105, [8041, 921]), (8106, [8042, 921]), (8107, [8043, 921]),
      (8108, [8044, 921]), (8109, [8045, 921]), (8110, [8046, 921]), (8111, [8047, 921]),
      (8114, [8122, 921]), (8115, [913, 921]), (8116, [902, 921]), (8118, [913, 834]),
      (8119, [913, 834, 921]), (8124, [913, 921]), (8130, [8138, 921]), (8131, [919, 921]),
      (8132, [905, 921]), (8134, [919, 834]), (8135, [919, 834, 921]), (8140, [919, 921]),
      (8146, [921, 776, 768]), (8147, [921, 776, 769]), (8150, [921, 834]),
      (8151, [921, 776, 834]), (8162, [933, 776, 768]), (8163, [933, 776, 769]),
      (8164, [929, 787]), (8166, [933, 834]), (8167, [933, 776, 834]), (8178, [8186, 921]),
      (8179, [937, 921]), (8180, [911, 921]), (8182, [937, 834]), (8183, [937, 834, 921]),
      (8188, [937, 921]), (64256, [70, 70]), (64257, [70, 73]), (64258, [70, 76]),
      (64259, [70, 70, 73]), (64260, [70, 70, 76]), (64261, [83, 84]), (64262, [83, 84]),
      (64275, [1348, 1350]), (64276, [1348, 1333]), (64277, [1348, 1339]),
      (64278, [1358, 1350]), (64279, [1348, 1341])]"

fun run_image :: "(nat \<times> nat \<times> nat \<times> nat) list \<Rightarrow> nat \<Rightarrow> nat option" where
  "run_image [] cp = None"
| "run_image ((lo, hi, step, img) # rs) cp =
     (if lo \<le> cp \<and> cp \<le> hi \<and> (cp - lo) mod step = 0
      then Some (img + (cp - lo))
      else run_image rs cp)"

text \<open>The UTF-16 code units of a code point.\<close>

definition encode_point :: "nat \<Rightarrow> jsstring" where
  "encode_point cp =
     (if cp < 65536 then [cp]
      else [55296 + (cp - 65536) div 1024, 56320 + (cp - 65536) mod 1024])"

text \<open>
  The upper-case form of the code point \<open>cp\<close>, whose own code units are \<open>same\<close>. In
  ASCII only \<^verbatim>\<open>a\<close>..\<^verbatim>\<open>z\<close> change: they move down by 32.
\<close>

definition upper_point :: "nat \<Rightarrow> jsstring \<Rightarrow> jsstring" where
  "upper_point cp same =
     (if cp < 128 then (if 97 \<le> cp \<and> cp \<le> 122 then [cp - 32] else same)
      else (case map_of upper_special cp of
              Some e \<Rightarrow> e
            | None \<Rightarrow> (case run_image upper_runs cp of
                         Some c \<Rightarrow> encode_point c
                       | None \<Rightarrow> same)))"

definition isLeadSurrogate :: "nat \<Rightarrow> bool" where
  "isLeadSurrogate u = (55296 \<le> u \<and> u \<le> 56319)"

definition isTrailSurrogate :: "nat \<Rightarrow> bool" where
  "isTrailSurrogate u = (56320 \<le> u \<and> u \<le> 57343)"

fun toUpperCase :: "jsstring \<Rightarrow> jsstring" where
  "toUpperCase [] = []"
| "toUpperCase [u] = upper_point u [u]"
| "toUpperCase (u # v # us) =
     (if isLeadSurrogate u \<and> isTrailSurrogate v
      then upper_point (65536 + (u - 55296) * 1024 + (v - 56320)) [u, v] @ toUpperCase us
      else upper_point u [u] @ toUpperCase (v # us))"

text \<open>
  \<^verbatim>\<open>String.prototype.trim\<close> strips the white space and line terminators of
  ECMAScript from both ends: tab, line feed, vertical tab, form feed, carriage return,
  space, no-break space, the other space separators of Unicode (\<^verbatim>\<open>U+1680\<close>,
  \<^verbatim>\<open>U+2000\<close>..\<^verbatim>\<open>U+200A\<close>, \<^verbatim>\<open>U+202F\<close>, \<^verbatim>\<open>U+205F\<close>,
  \<^verbatim>\<open>U+3000\<close>), the line and paragraph separators \<^verbatim>\<open>U+2028\<close> and
  \<^verbatim>\<open>U+2029\<close>, and the byte order mark \<^verbatim>\<open>U+FEFF\<close>.
\<close>

definition isWhiteSpace :: "nat \<Rightarrow> bool" where
  "isWhiteSpace u =
     (u \<in> {9, 10, 11, 12, 13, 32, 160, 5760, 8232, 8233, 8239, 8287, 12288, 65279}
      \<or> (8192 \<le> u \<and> u \<le> 8202))"

definition trim :: "jsstring \<Rightarrow> jsstring" where
  "trim s = rev (dropWhile isWhiteSpace (rev (dropWhile isWhiteSpace s)))"

text \<open>
  \<^verbatim>\<open>/^[A-Z]{1,5}$/.test(s)\<close>: the whole string is one to five of the code units
  of \<^verbatim>\<open>A\<close>..\<^verbatim>\<open>Z\<close> (without the \<^verbatim>\<open>m\<close> flag \<^verbatim>\<open>$\<close> is the end of input).
\<close>

definition isCapital :: "nat \<Rightarrow> bool" where
  "isCapital u = (65 \<le> u \<and> u \<le> 90)"

definition isSymbolFormat :: "jsstring \<Rightarrow> bool" where
  "isSymbolFormat s = (1 \<le> length s \<and> length s \<le> 5 \<and> list_all isCapital s)"

text \<open>The remainder operator \<^verbatim>\<open>%\<close> of JavaScript takes the sign of the dividend.\<close>

definition js_rem :: "int \<Rightarrow> int \<Rightarrow> int" where
  "js_rem a b = (if a < 0 then - ((- a) mod \<bar>b\<bar>) else a mod \<bar>b\<bar>)"

text \<open>Reading \<^verbatim>\<open>xs[i]\<close>: \<^verbatim>\<open>undefined\<close> (here \<open>None\<close>) outside the array.\<close>

definition js_index :: "'a list \<Rightarrow> int \<Rightarrow> 'a option" where
  "js_index xs i = (if 0 \<le> i \<and> i < int (length xs) then Some (xs ! nat i) else None)"

section \<open>The trending-symbol rotation\<close>

definition allTrendingStocks :: "jsstring list list" where
  "allTrendingStocks =
     [[(js ''AAPL''), (js ''NVDA''), (js ''TSLA'')],
      [(js ''MSFT''), (js ''GOOGL''), (js ''META'')],
      [(js ''AMZN''), (js ''NFLX''), (js ''AMD'')],
      [(js ''BABA''), (js ''TSM''), (js ''ASML'')],
      [(js ''JPM''), (js ''V''), (js ''MA'')]]"

definition oneDay :: int where
  "oneDay = 1000 * 60 * 60 * 24"

text \<open>
  \<open>now\<close> is \<^verbatim>\<open>Date.now()\<close> and \<open>startOfYear\<close> is
  \<^verbatim>\<open>new Date(new Date().getFullYear(), 0, 0).getTime()\<close>, both in milliseconds. The
  quotient of two integers of this size is exact enough in double precision for
  \<^verbatim>\<open>Math.floor\<close> to give the integer quotient rounded down.
\<close>

definition dayOfYear :: "int \<Rightarrow> int \<Rightarrow> int" where
  "dayOfYear now startOfYear = (now - startOfYear) div oneDay"

definition todaysIndex :: "int \<Rightarrow> int \<Rightarrow> int" where
  "todaysIndex now startOfYear =
     js_rem (dayOfYear now startOfYear) (int (length allTrendingStocks))"

definition todaysTrending :: "int \<Rightarrow> int \<Rightarrow> jsstring list option" where
  "todaysTrending now startOfYear = js_index allTrendingStocks (todaysIndex now startOfYear)"

section \<open>The functions of the page\<close>

text \<open>\<^verbatim>\<open>(data.quotes || []).reduce((acc, quote) => { acc[quote.symbol] = quote; ... }, {})\<close>\<close>

definition quotesMap :: "current_quote list \<Rightarrow> (jsstring \<rightharpoonup> current_quote)" where
  "quotesMap qs = foldl (\<lambda>acc q. acc(quote_symbol q \<mapsto> q)) Map.empty qs"

text \<open>
  \<^verbatim>\<open>fetchCurrentQuotes\<close> (lines 120-140). The whole body is inside \<^verbatim>\<open>try\<close>; reading
  \<^verbatim>\<open>data.quotes\<close> of a null \<^verbatim>\<open>data\<close> is a TypeError caught like the others.
\<close>

definition fetchCurrentQuotes :: "'w services \<Rightarrow> jsstring list \<Rightarrow> 'w page \<Rightarrow> completion \<times> 'w page" where
  "fetchCurrentQuotes sv symbols p =
     (case call_quotes sv symbols p of
        (Rejects e, p1) \<Rightarrow> (Fulfilled, emit (ConsoleError (js ''Error fetching current quotes:'')) p1)
      | (Resolves d err, p1) \<Rightarrow>
          (case err of
             Some e \<Rightarrow> (Fulfilled, emit (ConsoleError (js ''Error fetching current quotes:'')) p1)
           | None \<Rightarrow>
               (case d of
                  None \<Rightarrow> (Fulfilled, emit (ConsoleError (js ''Error fetching current quotes:'')) p1)
                | Some qd \<Rightarrow>
                    (Fulfilled,
                     p1\<lparr>currentQuotes :=
                          quotesMap (case quotes qd of None \<Rightarrow> [] | Some qs \<Rightarrow> qs)\<rparr>))))"

text \<open>
  \<^verbatim>\<open>fetchPredictions\<close> (lines 98-118). The \<^verbatim>\<open>catch\<close> also covers the awaited
  \<^verbatim>\<open>fetchCurrentQuotes\<close>.
\<close>

definition fetchPredictions :: "'w services \<Rightarrow> 'w page \<Rightarrow> completion \<times> 'w page" where
  "fetchPredictions sv p =
     (case call_select sv p of
        (Rejects e, p1) \<Rightarrow> (Fulfilled, emit (ConsoleError (js ''Error fetching predictions:'')) p1)
      | (Resolves d err, p1) \<Rightarrow>
          (case err of
             Some e \<Rightarrow> (Fulfilled, emit (ConsoleError (js ''Error fetching predictions:'')) p1)
           | None \<Rightarrow>
               (case d of
                  None \<Rightarrow> (Fulfilled, p1\<lparr>predictions := []\<rparr>)
                | Some ds \<Rightarrow>
                    if length ds > 0
                    then (case fetchCurrentQuotes sv (new_Set (map symbol ds))
                                 (p1\<lparr>predictions := ds\<rparr>) of
                            (Fulfilled, p3) \<Rightarrow> (Fulfilled, p3)
                          | (Rejected e, p3) \<Rightarrow>
                              (Fulfilled,
                               emit (ConsoleError (js ''Error fetching predictions:'')) p3))
                    else (Fulfilled, p1\<lparr>predictions := ds\<rparr>))))"

text \<open>
  The \<^verbatim>\<open>for\<close> loop of \<^verbatim>\<open>generateTrendingStocksPredictions\<close> (lines 81-92): the
  resolved value of the call is dropped, a rejection is caught and logged, and the loop
  goes on with the next symbol either way.
\<close>

fun generate_loop :: "'w services \<Rightarrow> jsstring list \<Rightarrow> 'w page \<Rightarrow> 'w page" where
  "generate_loop sv [] p = p"
| "generate_loop sv (s # ss) p =
     (case call_analyze sv s p of
        (Rejects e, p1) \<Rightarrow>
          generate_loop sv ss
            (emit (ConsoleError ((js ''Error analyzing trending stock '') @ s @ (js '':''))) p1)
      | (Resolves d err, p1) \<Rightarrow> generate_loop sv ss p1)"

text \<open>
  \<^verbatim>\<open>generateTrendingStocksPredictions\<close> (lines 65-96). Iterating over
  \<^verbatim>\<open>undefined\<close> throws a TypeError, after the \<^verbatim>\<open>console.log\<close>.
\<close>

definition generateTrendingStocksPredictions ::
  "'w services \<Rightarrow> int \<Rightarrow> int \<Rightarrow> 'w page \<Rightarrow> completion \<times> 'w page" where
  "generateTrendingStocksPredictions sv now startOfYear p =
     (let p1 = emit (ConsoleLog (js ''Generating predictions for trending stocks:'')) p
      in case todaysTrending now startOfYear of
           None \<Rightarrow> (Rejected TypeError, p1)
         | Some todays \<Rightarrow> fetchPredictions sv (generate_loop sv todays p1))"

text \<open>
  \<^verbatim>\<open>initializePage\<close> (lines 42-63). Only \<^verbatim>\<open>data\<close> is taken from the resolved
  object; nothing here is inside \<^verbatim>\<open>try\<close>, so a rejection ends the function at once.
\<close>

definition initializePage ::
  "'w services \<Rightarrow> int \<Rightarrow> int \<Rightarrow> 'w page \<Rightarrow> completion \<times> 'w page" where
  "initializePage sv now startOfYear p =
     (case call_select sv (p\<lparr>loading := True\<rparr>) of
        (Rejects e, p1) \<Rightarrow> (Rejected e, p1)
      | (Resolves existingPredictions err, p1) \<Rightarrow>
          (case (case existingPredictions of
                   None \<Rightarrow> generateTrendingStocksPredictions sv now startOfYear p1
                 | Some ds \<Rightarrow>
                     if length ds = 0
                     then generateTrendingStocksPredictions sv now startOfYear p1
                     else fetchCurrentQuotes sv (new_Set (map symbol ds))
                            (p1\<lparr>predictions := ds\<rparr>)) of
             (Fulfilled, p2) \<Rightarrow> (Fulfilled, p2\<lparr>loading := False\<rparr>)
           | (Rejected e, p2) \<Rightarrow> (Rejected e, p2)))"

text \<open>
  Lines 147-166 of \<^verbatim>\<open>analyzeStock\<close>: the choice of \<^verbatim>\<open>symbolToAnalyze\<close>. The
  inner \<^verbatim>\<open>try\<close> covers the search call and the reading of its result.
\<close>

definition resolveSymbol :: "'w services \<Rightarrow> 'w page \<Rightarrow> jsstring \<times> 'w page" where
  "resolveSymbol sv p =
     (let symbolToAnalyze = toUpperCase (searchSymbol p)
      in if length (searchSymbol p) > 5 \<or> \<not> isSymbolFormat (toUpperCase (searchSymbol p))
         then (case call_search sv (searchSymbol p) p of
                 (Rejects e, p1) \<Rightarrow>
                   (symbolToAnalyze,
                    emit (ConsoleLog (js ''Search failed, trying original symbol:'')) p1)
               | (Resolves searchData err, p1) \<Rightarrow>
                   (case searchData of
                      None \<Rightarrow> (symbolToAnalyze, p1)
                    | Some sd \<Rightarrow>
                        (case results sd of
                           None \<Rightarrow> (symbolToAnalyze, p1)
                         | Some [] \<Rightarrow> (symbolToAnalyze, p1)
                         | Some (r # rs) \<Rightarrow>
                             (result_symbol r,
                              emit (ConsoleLog ((js ''Found symbol: '') @ result_symbol r
                                      @ (js '' for search: '') @ searchSymbol p)) p1))))
         else (symbolToAnalyze, p))"

text \<open>
  \<^verbatim>\<open>analyzeStock\<close> (lines 142-189). The \<^verbatim>\<open>finally\<close> clause runs on every way out
  of the \<^verbatim>\<open>try\<close>, the early \<^verbatim>\<open>return\<close> included.
\<close>

definition analyzeStock :: "'w services \<Rightarrow> 'w page \<Rightarrow> completion \<times> 'w page" where
  "analyzeStock sv p =
     (if trim (searchSymbol p) = [] then (Fulfilled, p)
      else
        (case resolveSymbol sv (p\<lparr>analyzing := True\<rparr>) of
           (symbolToAnalyze, p1) \<Rightarrow>
             (case call_analyze sv symbolToAnalyze p1 of
                (Rejects e, p2) \<Rightarrow>
                  (Fulfilled, (emit (ConsoleError (js ''Error analyzing stock:'')) p2)\<lparr>analyzing := False\<rparr>)
              | (Resolves d err, p2) \<Rightarrow>
                  (case err of
                     Some e \<Rightarrow>
                       (Fulfilled, (emit (ConsoleError (js ''Analysis error:'')) p2)\<lparr>analyzing := False\<rparr>)
                   | None \<Rightarrow>
                       (case fetchPredictions sv p2 of
                          (Fulfilled, p3) \<Rightarrow>
                            (Fulfilled, p3\<lparr>searchSymbol := [], analyzing := False\<rparr>)
                        | (Rejected e, p3) \<Rightarrow>
                            (Fulfilled,
                             (emit (ConsoleError (js ''Error analyzing stock:'')) p3)
                               \<lparr>analyzing := False\<rparr>))))))"

section \<open>Observing a run\<close>

fun isSelect :: "event \<Rightarrow> bool" where
  "isSelect SelectPredictions = True"
| "isSelect _ = False"

fun isDispatch :: "event \<Rightarrow> bool" where
  "isDispatch (AnalyzeStock s) = True"
| "isDispatch _ = False"

fun isQuotes :: "event \<Rightarrow> bool" where
  "isQuotes (CurrentQuotes ss) = True"
| "isQuotes _ = False"

fun isSearch :: "event \<Rightarrow> bool" where
  "isSearch (SearchStocks q) = True"
| "isSearch _ = False"

fun isConsoleError :: "event \<Rightarrow> bool" where
  "isConsoleError (ConsoleError m) = True"
| "isConsoleError _ = False"

text \<open>A call to a service counts as failed when it rejects or resolves with an error.\<close>

fun failed :: "'a awaited \<Rightarrow> bool" where
  "failed (Rejects e) = True"
| "failed (Resolves d (Some e)) = True"
| "failed (Resolves d None) = False"

text \<open>
  The quote request that follows a read of the repository: one batched request when the
  read gave a non-empty list without error, none otherwise.
\<close>

fun quotes_for :: "prediction list awaited \<Rightarrow> event list" where
  "quotes_for (Resolves (Some (d # ds)) None) = [CurrentQuotes (new_Set (map symbol (d # ds)))]"
| "quotes_for _ = []"

section \<open>A small remote side to run the page against\<close>

text \<open>
  A repository that holds predictions newest first and whose reads can be switched off;
  an inference service that keeps a list of every request it receives, cannot analyse
  \<^verbatim>\<open>NVDA\<close> (the call rejects) nor \<^verbatim>\<open>TSLA\<close> (the call resolves with an
  error), stores a prediction for any other symbol and can be switched off as a whole; and
  a market-data function that can be switched off, after which a quote request resolves
  with an error and a search rejects, and whose search knows one company name.
\<close>

record remote =
  store :: "prediction list"
  received :: "jsstring list"
  read_ok :: bool
  inference_ok :: bool
  quotes_ok :: bool

definition sample_prediction :: "jsstring \<Rightarrow> prediction" where
  "sample_prediction s =
     \<lparr>prediction_id = js ''id-'' @ s, symbol = s, predicted_price = 100, confidence_score = 1,
      signal_type = Hold, created_at = (js ''2024-01-05''), expires_at = (js ''2024-01-06'')\<rparr>"

definition sample_quote :: "jsstring \<Rightarrow> current_quote" where
  "sample_quote s = \<lparr>quote_symbol = s, price = 100, change = 1, changePercent = 1\<rparr>"

definition sample_services :: "remote services" where
  "sample_services =
     \<lparr>select_predictions = (\<lambda>w.
         if read_ok w then (Resolves (Some (take 10 (store w))) None, w)
         else (Resolves None (Some (ServiceError ''read failed'')), w)),
      invoke_analyze_stock = (\<lambda>s w.
         if s = js ''NVDA''
         then (Rejects (ServiceError ''network''), w\<lparr>received := received w @ [s]\<rparr>)
         else if s = js ''TSLA'' \<or> \<not> inference_ok w
         then (Resolves None (Some (ServiceError ''no data'')),
               w\<lparr>received := received w @ [s]\<rparr>)
         else (Resolves (Some ()) None,
               w\<lparr>store := sample_prediction s # store w, received := received w @ [s]\<rparr>)),
      invoke_current_quotes = (\<lambda>ss w.
         if quotes_ok w then (Resolves (Some (QuotesData (Some (map sample_quote ss)))) None, w)
         else (Resolves None (Some (ServiceError ''quotes down'')), w)),
      invoke_search_stocks = (\<lambda>q w.
         if \<not> quotes_ok w then (Rejects (ServiceError ''search down''), w)
         else if q = js ''apple inc''
         then (Resolves (Some (SearchData (Some [SearchResult (js ''AAPL'')]))) None, w)
         else (Resolves (Some (SearchData (Some []))) None, w))\<rparr>"

definition fresh_page :: "remote \<Rightarrow> remote page" where
  "fresh_page w =
     \<lparr>searchSymbol = [], predictions = [], currentQuotes = Map.empty, loading = False,
      analyzing = False, world = w, trace = []\<rparr>"

text \<open>
  In a zone that keeps UTC all year: midnight of 31 December 2023, which is what
  \<^verbatim>\<open>new Date(2024, 0, 0)\<close> gives there, and noon of 5 January 2024, in
  milliseconds.
\<close>

definition sample_startOfYear :: int where
  "sample_startOfYear = 1703980800000"

definition sample_now :: int where
  "sample_now = 1704456000000"







text \<open>
  A page that already shows a prediction and its quote, in front of a quote service that
  has gone down.
\<close>

definition stale_page :: "remote page" where
  "stale_page =
     (fresh_page \<lparr>store = [sample_prediction (js ''MSFT'')], received = [], read_ok = True, inference_ok = True,
                  quotes_ok = False\<rparr>)
       \<lparr>predictions := [sample_prediction (js ''MSFT'')],
        currentQuotes := [(js ''MSFT'') \<mapsto> sample_quote (js ''MSFT'')]\<rparr>"

text \<open>
  The page as it stands at line 94, in a run of \<^verbatim>\<open>initializePage\<close> that took the
  fallback path: the first read is done, the loop over today's symbols has ended and
  \<^verbatim>\<open>fetchPredictions\<close> has not been called yet.
\<close>

definition after_batch :: "'w services \<Rightarrow> jsstring list \<Rightarrow> 'w page \<Rightarrow> 'w page" where
  "after_batch sv todays p =
     generate_loop sv todays
       (emit (ConsoleLog (js ''Generating predictions for trending stocks:''))
          (snd (call_select sv (p\<lparr>loading := True\<rparr>))))"

text \<open>Pages and remote states used to run the functions on concrete inputs.\<close>

definition search_page :: "remote page" where
  "search_page =
     (fresh_page \<lparr>store = [], received = [], read_ok = True, inference_ok = True, quotes_ok = True\<rparr>)
       \<lparr>searchSymbol := (js ''apple inc'')\<rparr>"

definition nohit_page :: "remote page" where
  "nohit_page =
     (fresh_page \<lparr>store = [], received = [], read_ok = True, inference_ok = True,
                  quotes_ok = True\<rparr>)
       \<lparr>searchSymbol := js ''apple corp''\<rparr>"

definition nosearch_page :: "remote page" where
  "nosearch_page =
     (fresh_page \<lparr>store = [], received = [], read_ok = True, inference_ok = True,
                  quotes_ok = False\<rparr>)
       \<lparr>searchSymbol := js ''apple inc''\<rparr>"

definition cold_remote :: remote where
  "cold_remote = \<lparr>store = [], received = [], read_ok = True, inference_ok = True, quotes_ok = True\<rparr>"

definition broken_remote :: remote where
  "broken_remote = \<lparr>store = [], received = [], read_ok = False, inference_ok = True, quotes_ok = True\<rparr>"

text \<open>A remote side whose repository cannot be reached at all: the read call rejects.\<close>

definition unreachable_services :: "remote services" where
  "unreachable_services =
     sample_services\<lparr>select_predictions :=
       (\<lambda>w. (Rejects (ServiceError ''unreachable''), w))\<rparr>"

definition warm_remote :: remote where
  "warm_remote =
     \<lparr>store = [sample_prediction (js ''MSFT''), sample_prediction (js ''AAPL''), sample_prediction (js ''MSFT'')], received = [],
      read_ok = True, inference_ok = True, quotes_ok = True\<rparr>"

definition idle_remote :: remote where
  "idle_remote = \<lparr>store = [], received = [], read_ok = True, inference_ok = False, quotes_ok = True\<rparr>"

definition tesla_page :: "remote page" where
  "tesla_page =
     (fresh_page \<lparr>store = [sample_prediction (js ''MSFT'')], received = [], read_ok = True, inference_ok = True,
                  quotes_ok = True\<rparr>)
       \<lparr>searchSymbol := (js ''tsla''), predictions := [sample_prediction (js ''MSFT'')]\<rparr>"

section \<open>Basic facts\<close>

lemma emit_fields [simp]:
  "trace (emit ev p) = trace p @ [ev]"
  "predictions (emit ev p) = predictions p"
  "currentQuotes (emit ev p) = currentQuotes p"
  "searchSymbol (emit ev p) = searchSymbol p"
  "world (emit ev p) = world p"
  by (simp_all add: emit_def)

subsection \<open>\<^verbatim>\<open>toUpperCase\<close> and \<^verbatim>\<open>trim\<close>\<close>

lemma js_eq [simp]: "js a = js b \<longleftrightarrow> a = b"
proof -
  have "inj (of_char :: char \<Rightarrow> nat)"
    by (rule injI) simp
  then show ?thesis
    by (simp add: js_def)
qed

lemma js_append [simp]: "js a @ js b = js (a @ b)"
  by (simp add: js_def)

lemma length_js [simp]: "length (js a) = length a"
  by (simp add: js_def)

lemma js_Cons: "js (c # cs) = of_char c # js cs"
  by (simp add: js_def)

lemma js_Nil: "js [] = []"
  by (simp add: js_def)

lemma upper_special_entries:
  "list_all (\<lambda>(k, e). e \<noteq> [] \<and> k < 65536) upper_special"
  by (simp add: upper_special_def)

lemma upper_runs_entries:
  "list_all (\<lambda>(lo, hi, step, img). 65536 \<le> hi \<longrightarrow> 65536 \<le> lo \<and> 65536 \<le> img) upper_runs"
  by (simp add: upper_runs_def)

lemma run_image_SomeD:
  "run_image rs cp = Some c \<Longrightarrow>
   \<exists>lo hi step img. (lo, hi, step, img) \<in> set rs \<and> lo \<le> cp \<and> cp \<le> hi \<and> c = img + (cp - lo)"
proof (induction rs cp rule: run_image.induct)
  case (1 cp)
  then show ?case by simp
next
  case (2 lo hi step img rs cp)
  show ?case
  proof (cases "lo \<le> cp \<and> cp \<le> hi \<and> (cp - lo) mod step = 0")
    case True
    with "2.prems" have "c = img + (cp - lo)" by simp
    with True have "(lo, hi, step, img) \<in> set ((lo, hi, step, img) # rs)
        \<and> lo \<le> cp \<and> cp \<le> hi \<and> c = img + (cp - lo)"
      by simp
    then show ?thesis by blast
  next
    case False
    with "2.prems" have "run_image rs cp = Some c" by simp
    from "2.IH" [OF False this] obtain lo' hi' step' img' where
      "(lo', hi', step', img') \<in> set rs" "lo' \<le> cp" "cp \<le> hi'" "c = img' + (cp - lo')"
      by blast
    then have "(lo', hi', step', img') \<in> set ((lo, hi, step, img) # rs)
        \<and> lo' \<le> cp \<and> cp \<le> hi' \<and> c = img' + (cp - lo')"
      by simp
    then show ?thesis by blast
  qed
qed

lemma encode_point_nonempty: "encode_point c \<noteq> []"
  by (simp add: encode_point_def)

lemma length_encode_point_supplementary: "65536 \<le> c \<Longrightarrow> length (encode_point c) = 2"
  by (simp add: encode_point_def)

lemma upper_point_nonempty:
  assumes "same \<noteq> []"
  shows "upper_point cp same \<noteq> []"
proof (cases "cp < 128")
  case True
  with assms show ?thesis by (simp add: upper_point_def)
next
  case False
  show ?thesis
  proof (cases "map_of upper_special cp")
    case (Some e)
    then have "(cp, e) \<in> set upper_special" by (rule map_of_SomeD)
    with upper_special_entries have "e \<noteq> []"
      by (auto simp: list_all_iff)
    with False Some show ?thesis by (simp add: upper_point_def)
  next
    case None
    show ?thesis
    proof (cases "run_image upper_runs cp")
      case nr: None
      with None False assms show ?thesis by (simp add: upper_point_def)
    next
      case (Some c)
      with None False show ?thesis by (simp add: upper_point_def encode_point_nonempty)
    qed
  qed
qed

lemma upper_point_supplementary:
  assumes "65536 \<le> cp" and "2 \<le> length same"
  shows "2 \<le> length (upper_point cp same)"
proof (cases "map_of upper_special cp")
  case (Some e)
  then have "(cp, e) \<in> set upper_special" by (rule map_of_SomeD)
  with upper_special_entries have "cp < 65536"
    by (auto simp: list_all_iff)
  with assms(1) show ?thesis by simp
next
  case None
  from assms(1) have big: "\<not> cp < 128" by simp
  show ?thesis
  proof (cases "run_image upper_runs cp")
    case nr: None
    with None big assms(2) show ?thesis by (simp add: upper_point_def)
  next
    case (Some c)
    then obtain lo hi step img where r: "(lo, hi, step, img) \<in> set upper_runs"
        "lo \<le> cp" "cp \<le> hi" "c = img + (cp - lo)"
      using run_image_SomeD by blast
    from r(1) upper_runs_entries have "65536 \<le> hi \<longrightarrow> 65536 \<le> lo \<and> 65536 \<le> img"
      by (auto simp: list_all_iff)
    with r(3,4) assms(1) have "65536 \<le> c" by arith
    then have "length (encode_point c) = 2" by (rule length_encode_point_supplementary)
    with None Some big show ?thesis by (simp add: upper_point_def)
  qed
qed

lemma length_toUpperCase: "length s \<le> length (toUpperCase s)"
proof (induction s rule: toUpperCase.induct)
  case 1
  show ?case by simp
next
  case (2 u)
  have "upper_point u [u] \<noteq> []" by (rule upper_point_nonempty) simp
  then have "1 \<le> length (upper_point u [u])" by (cases "upper_point u [u]") simp_all
  then show ?case by simp
next
  case (3 u v us)
  show ?case
  proof (cases "isLeadSurrogate u \<and> isTrailSurrogate v")
    case True
    have "2 \<le> length (upper_point (65536 + (u - 55296) * 1024 + (v - 56320)) [u, v])"
      by (rule upper_point_supplementary) simp_all
    moreover have "length us \<le> length (toUpperCase us)"
      using True by (rule "3.IH"(1))
    ultimately show ?thesis by (simp add: True)
  next
    case False
    have "upper_point u [u] \<noteq> []" by (rule upper_point_nonempty) simp
    then have "1 \<le> length (upper_point u [u])" by (cases "upper_point u [u]") simp_all
    moreover have "length (v # us) \<le> length (toUpperCase (v # us))"
      using False by (rule "3.IH"(2))
    ultimately show ?thesis by (simp add: False)
  qed
qed

text \<open>Upper-casing ASCII text: only the small letters change.\<close>

lemma toUpperCase_ascii_Cons:
  "u < 128 \<Longrightarrow>
   toUpperCase (u # us) = (if 97 \<le> u \<and> u \<le> 122 then u - 32 else u) # toUpperCase us"
  by (cases us) (simp_all add: upper_point_def isLeadSurrogate_def)

lemma toUpperCase_ascii:
  "list_all (\<lambda>u. u < 128) s \<Longrightarrow>
   toUpperCase s = map (\<lambda>u. if 97 \<le> u \<and> u \<le> 122 then u - 32 else u) s"
  by (induction s) (simp_all add: toUpperCase_ascii_Cons del: toUpperCase.simps(3))

lemma toUpperCase_sharp_s: "toUpperCase [223] = js ''SS''"
  by (simp add: js_def upper_point_def upper_special_def)

declare toUpperCase.simps [simp del]

lemma dropWhile_rest_all:
  assumes "\<forall>x \<in> set (dropWhile P s). P x"
  shows "dropWhile P s = []"
proof (rule ccontr)
  assume ne: "dropWhile P s \<noteq> []"
  then have "hd (dropWhile P s) \<in> set (dropWhile P s)"
    by (rule hd_in_set)
  with assms have "P (hd (dropWhile P s))"
    by (rule bspec)
  moreover from ne have "\<not> P (hd (dropWhile P s))"
    by (rule hd_dropWhile)
  ultimately show False
    by (rule notE [rotated])
qed

lemma trim_empty_iff: "trim s = [] \<longleftrightarrow> list_all isWhiteSpace s"
proof
  assume "trim s = []"
  then have "dropWhile isWhiteSpace (rev (dropWhile isWhiteSpace s)) = []"
    by (simp only: trim_def rev_is_Nil_conv)
  then have "\<forall>x \<in> set (dropWhile isWhiteSpace s). isWhiteSpace x"
    by (simp only: dropWhile_eq_Nil_conv set_rev)
  then have "dropWhile isWhiteSpace s = []"
    by (rule dropWhile_rest_all)
  then show "list_all isWhiteSpace s"
    by (simp only: dropWhile_eq_Nil_conv list_all_iff)
next
  assume "list_all isWhiteSpace s"
  then have "dropWhile isWhiteSpace s = []"
    by (simp only: dropWhile_eq_Nil_conv list_all_iff)
  then show "trim s = []"
    by (simp only: trim_def rev.simps dropWhile.simps)
qed

subsection \<open>\<^verbatim>\<open>new Set\<close>\<close>

lemma foldl_set_add_set: "set (foldl set_add acc xs) = set acc \<union> set xs"
  by (induction xs arbitrary: acc) (auto simp: set_add_def)

lemma foldl_set_add_distinct: "distinct acc \<Longrightarrow> distinct (foldl set_add acc xs)"
  by (induction xs arbitrary: acc) (auto simp: set_add_def)

lemma set_new_Set: "set (new_Set xs) = set xs"
  by (simp add: new_Set_def foldl_set_add_set)

lemma distinct_new_Set: "distinct (new_Set xs)"
  by (simp add: new_Set_def foldl_set_add_distinct)

subsection \<open>fetchCurrentQuotes\<close>

lemma fetchCurrentQuotes_fst: "fst (fetchCurrentQuotes sv ss p) = Fulfilled"
  by (simp add: fetchCurrentQuotes_def call_quotes_def
        split: prod.splits awaited.splits option.splits)

lemma fetchCurrentQuotes_predictions:
  "predictions (snd (fetchCurrentQuotes sv ss p)) = predictions p"
  by (simp add: fetchCurrentQuotes_def call_quotes_def
        split: prod.splits awaited.splits option.splits)

lemma fetchCurrentQuotes_trace:
  "\<exists>evs. trace (snd (fetchCurrentQuotes sv ss p)) = trace p @ CurrentQuotes ss # evs
     \<and> filter isSelect evs = [] \<and> filter isDispatch evs = [] \<and> filter isQuotes evs = []
     \<and> filter isSearch evs = []"
  by (simp add: fetchCurrentQuotes_def call_quotes_def
        split: prod.splits awaited.splits option.splits)


subsection \<open>fetchPredictions\<close>

lemma fetchPredictions_fst: "fst (fetchPredictions sv p) = Fulfilled"
  by (simp add: fetchPredictions_def call_select_def
        split: prod.splits awaited.splits option.splits completion.splits)

lemma fetchPredictions_Some:
  assumes "select_predictions sv (world p) = (Resolves (Some ds) None, w)"
  shows "predictions (snd (fetchPredictions sv p)) = ds"
proof -
  let ?q = "(emit SelectPredictions (p\<lparr>world := w\<rparr>))\<lparr>predictions := ds\<rparr>"
  obtain c q' where q': "fetchCurrentQuotes sv (new_Set (map symbol ds)) ?q = (c, q')"
    by (cases "fetchCurrentQuotes sv (new_Set (map symbol ds)) ?q")
  then have "predictions q' = ds"
    using fetchCurrentQuotes_predictions [of sv "new_Set (map symbol ds)" ?q] by simp
  with q' show ?thesis
    by (simp add: fetchPredictions_def call_select_def assms split: completion.splits)
qed

lemma fetchPredictions_None:
  "select_predictions sv (world p) = (Resolves None None, w) \<Longrightarrow>
   predictions (snd (fetchPredictions sv p)) = []"
  by (simp add: fetchPredictions_def call_select_def)

lemma fetchPredictions_failed:
  "failed (fst (select_predictions sv (world p))) \<Longrightarrow>
   predictions (snd (fetchPredictions sv p)) = predictions p"
  by (cases "select_predictions sv (world p)")
     (auto simp: fetchPredictions_def call_select_def
        split: awaited.splits option.splits elim: failed.elims)

lemma fetchPredictions_trace:
  "\<exists>evs. trace (snd (fetchPredictions sv p)) = trace p @ SelectPredictions # evs
     \<and> filter isSelect evs = [] \<and> filter isDispatch evs = []
     \<and> filter isQuotes evs = quotes_for (fst (select_predictions sv (world p)))"
proof (cases "select_predictions sv (world p)")
  case (Pair r w)
  show ?thesis
  proof (cases "\<exists>d ds. r = Resolves (Some (d # ds)) None")
    case True
    then obtain d ds where r: "r = Resolves (Some (d # ds)) None" by blast
    let ?q = "(emit SelectPredictions (p\<lparr>world := w\<rparr>))\<lparr>predictions := d # ds\<rparr>"
    obtain evs where evs: "trace (snd (fetchCurrentQuotes sv (new_Set (map symbol (d # ds))) ?q))
        = trace ?q @ CurrentQuotes (new_Set (map symbol (d # ds))) # evs"
      "filter isSelect evs = []" "filter isDispatch evs = []" "filter isQuotes evs = []"
      using fetchCurrentQuotes_trace [of sv "new_Set (map symbol (d # ds))" ?q] by blast
    obtain q' where q': "fetchCurrentQuotes sv (new_Set (map symbol (d # ds))) ?q = (Fulfilled, q')"
      using fetchCurrentQuotes_fst [of sv "new_Set (map symbol (d # ds))" ?q]
      by (cases "fetchCurrentQuotes sv (new_Set (map symbol (d # ds))) ?q") simp
    then have "snd (fetchPredictions sv p) = q'"
      by (simp add: fetchPredictions_def call_select_def Pair r)
    with evs q' show ?thesis by (simp add: Pair r)
  next
    case False
    show ?thesis
    proof (cases r)
      case (Rejects e)
      then show ?thesis by (simp add: fetchPredictions_def call_select_def Pair)
    next
      case (Resolves d err)
      show ?thesis
      proof (cases err)
        case (Some e)
        with Resolves show ?thesis by (simp add: fetchPredictions_def call_select_def Pair)
      next
        case None
        have "d = None \<or> d = Some []"
        proof (cases d)
          case (Some xs)
          with False Resolves None show ?thesis by (cases xs) simp_all
        qed simp
        with Resolves None show ?thesis
          by (auto simp: fetchPredictions_def call_select_def Pair)
      qed
    qed
  qed
qed

subsection \<open>The generation loop\<close>

lemma generate_loop_predictions [simp]:
  "predictions (generate_loop sv ss p) = predictions p"
  by (induction ss arbitrary: p)
     (auto simp: call_analyze_def split: prod.splits awaited.splits)

lemma generate_loop_currentQuotes [simp]:
  "currentQuotes (generate_loop sv ss p) = currentQuotes p"
  by (induction ss arbitrary: p)
     (auto simp: call_analyze_def split: prod.splits awaited.splits)


lemma generate_loop_trace:
  "\<exists>evs. trace (generate_loop sv ss p) = trace p @ evs
     \<and> filter isSelect evs = [] \<and> filter isQuotes evs = []
     \<and> filter isDispatch evs = map AnalyzeStock ss"
proof (induction ss arbitrary: p)
  case Nil
  then show ?case by simp
next
  case (Cons s ss)
  obtain r w where rw: "invoke_analyze_stock sv s (world p) = (r, w)"
    by (cases "invoke_analyze_stock sv s (world p)")
  let ?p1 = "emit (AnalyzeStock s) (p\<lparr>world := w\<rparr>)"
  show ?case
  proof (cases r)
    case (Rejects e)
    let ?p2 = "emit (ConsoleError ((js ''Error analyzing trending stock '') @ s @ (js '':''))) ?p1"
    from Cons.IH [of ?p2] obtain evs where
      "trace (generate_loop sv ss ?p2) = trace ?p2 @ evs" "filter isSelect evs = []"
      "filter isQuotes evs = []" "filter isDispatch evs = map AnalyzeStock ss" by blast
    then show ?thesis by (simp add: call_analyze_def rw Rejects)
  next
    case (Resolves d err)
    from Cons.IH [of ?p1] obtain evs where
      "trace (generate_loop sv ss ?p1) = trace ?p1 @ evs" "filter isSelect evs = []"
      "filter isQuotes evs = []" "filter isDispatch evs = map AnalyzeStock ss" by blast
    then show ?thesis by (simp add: call_analyze_def rw Resolves)
  qed
qed


subsection \<open>initializePage\<close>

lemma initializePage_fallback:
  assumes "select_predictions sv (world p) = (Resolves d err, w)"
      and "d = None \<or> d = Some []"
      and "todaysTrending now startOfYear = Some todays"
  shows "initializePage sv now startOfYear p =
           (Fulfilled,
            (snd (fetchPredictions sv
               (generate_loop sv todays
                  (emit (ConsoleLog (js ''Generating predictions for trending stocks:''))
                     (snd (call_select sv (p\<lparr>loading := True\<rparr>)))))))\<lparr>loading := False\<rparr>)"
proof -
  let ?p1 = "emit SelectPredictions (p\<lparr>loading := True, world := w\<rparr>)"
  let ?b = "generate_loop sv todays
              (emit (ConsoleLog (js ''Generating predictions for trending stocks:'')) ?p1)"
  have cs: "call_select sv (p\<lparr>loading := True\<rparr>) = (Resolves d err, ?p1)"
    by (simp add: call_select_def assms(1))
  obtain q where q: "fetchPredictions sv ?b = (Fulfilled, q)"
    using fetchPredictions_fst [of sv ?b] by (cases "fetchPredictions sv ?b") simp
  have gen: "generateTrendingStocksPredictions sv now startOfYear ?p1 = (Fulfilled, q)"
    by (simp add: generateTrendingStocksPredictions_def assms(3) q)
  have "initializePage sv now startOfYear p = (Fulfilled, q\<lparr>loading := False\<rparr>)"
    using assms(2) by (auto simp: initializePage_def cs gen)
  then show ?thesis by (simp add: cs q)
qed

lemma initializePage_existing:
  assumes "select_predictions sv (world p) = (Resolves (Some ds) err, w)"
      and "ds \<noteq> []"
  shows "initializePage sv now startOfYear p =
           (Fulfilled,
            (snd (fetchCurrentQuotes sv (new_Set (map symbol ds))
               ((snd (call_select sv (p\<lparr>loading := True\<rparr>)))\<lparr>predictions := ds\<rparr>)))
              \<lparr>loading := False\<rparr>)"
proof -
  let ?p1 = "emit SelectPredictions (p\<lparr>loading := True, world := w\<rparr>)"
  let ?q = "?p1\<lparr>predictions := ds\<rparr>"
  have cs: "call_select sv (p\<lparr>loading := True\<rparr>) = (Resolves (Some ds) err, ?p1)"
    by (simp add: call_select_def assms(1))
  obtain q' where q': "fetchCurrentQuotes sv (new_Set (map symbol ds)) ?q = (Fulfilled, q')"
    using fetchCurrentQuotes_fst [of sv "new_Set (map symbol ds)" ?q]
    by (cases "fetchCurrentQuotes sv (new_Set (map symbol ds)) ?q") simp
  have "initializePage sv now startOfYear p = (Fulfilled, q'\<lparr>loading := False\<rparr>)"
    using assms(2) by (simp add: initializePage_def cs q')
  then show ?thesis by (simp add: cs q')
qed

lemma call_select_fields [simp]:
  "trace (snd (call_select sv p)) = trace p @ [SelectPredictions]"
  "predictions (snd (call_select sv p)) = predictions p"
  "currentQuotes (snd (call_select sv p)) = currentQuotes p"
  by (simp_all add: call_select_def split: prod.splits)


subsection \<open>resolveSymbol\<close>

lemma resolveSymbol_fields [simp]:
  "predictions (snd (resolveSymbol sv p)) = predictions p"
  "currentQuotes (snd (resolveSymbol sv p)) = currentQuotes p"
  "searchSymbol (snd (resolveSymbol sv p)) = searchSymbol p"
  "filter isSelect (trace (snd (resolveSymbol sv p))) = filter isSelect (trace p)"
  "filter isQuotes (trace (snd (resolveSymbol sv p))) = filter isQuotes (trace p)"
  "filter isDispatch (trace (snd (resolveSymbol sv p))) = filter isDispatch (trace p)"
  by (simp_all add: resolveSymbol_def call_search_def Let_def
        split: prod.splits awaited.splits option.splits list.splits)

subsection \<open>The fallback path of initializePage\<close>

lemma initializePage_fallback_trace:
  assumes "select_predictions sv (world p) = (Resolves d err, w)"
      and "d = None \<or> d = Some []"
      and "todaysTrending now startOfYear = Some todays"
  shows "\<exists>evs1 evs2.
           trace (after_batch sv todays p)
             = trace p @ [SelectPredictions,
                          ConsoleLog (js ''Generating predictions for trending stocks:'')] @ evs1
         \<and> trace (snd (initializePage sv now startOfYear p))
             = trace (after_batch sv todays p) @ SelectPredictions # evs2
         \<and> filter isSelect evs1 = [] \<and> filter isQuotes evs1 = []
         \<and> filter isDispatch evs1 = map AnalyzeStock todays
         \<and> filter isSelect evs2 = [] \<and> filter isDispatch evs2 = []
         \<and> filter isQuotes evs2
             = quotes_for (fst (select_predictions sv (world (after_batch sv todays p))))"
proof -
  let ?p0 = "emit (ConsoleLog (js ''Generating predictions for trending stocks:''))
               (snd (call_select sv (p\<lparr>loading := True\<rparr>)))"
  obtain evs1 where e1: "trace (generate_loop sv todays ?p0) = trace ?p0 @ evs1"
      "filter isSelect evs1 = []" "filter isQuotes evs1 = []"
      "filter isDispatch evs1 = map AnalyzeStock todays"
    using generate_loop_trace [of sv todays ?p0] by blast
  obtain evs2 where e2:
      "trace (snd (fetchPredictions sv (after_batch sv todays p)))
         = trace (after_batch sv todays p) @ SelectPredictions # evs2"
      "filter isSelect evs2 = []" "filter isDispatch evs2 = []"
      "filter isQuotes evs2
         = quotes_for (fst (select_predictions sv (world (after_batch sv todays p))))"
    using fetchPredictions_trace [of sv "after_batch sv todays p"] by blast
  have a: "trace (after_batch sv todays p)
             = trace p @ [SelectPredictions,
                          ConsoleLog (js ''Generating predictions for trending stocks:'')] @ evs1"
    using e1(1) by (simp add: after_batch_def)
  have b: "trace (snd (initializePage sv now startOfYear p))
             = trace (after_batch sv todays p) @ SelectPredictions # evs2"
    using e2(1) by (simp add: initializePage_fallback [OF assms] after_batch_def)
  from a b e1 e2 show ?thesis by blast
qed

lemma initializePage_fallback_predictions:
  assumes "select_predictions sv (world p) = (Resolves d err, w)"
      and "d = None \<or> d = Some []"
      and "todaysTrending now startOfYear = Some todays"
  shows "predictions (snd (initializePage sv now startOfYear p))
           = predictions (snd (fetchPredictions sv (after_batch sv todays p)))"
    and "predictions (after_batch sv todays p) = predictions p"
  by (simp_all add: initializePage_fallback [OF assms] after_batch_def)

lemma sample_todays:
  "todaysTrending sample_now sample_startOfYear = Some [(js ''AAPL''), (js ''NVDA''), (js ''TSLA'')]"
  by (simp add: todaysTrending_def todaysIndex_def dayOfYear_def js_rem_def js_index_def
        allTrendingStocks_def oneDay_def sample_now_def sample_startOfYear_def)

lemma sample_after_batch_world:
  "world (after_batch sample_services [(js ''AAPL''), (js ''NVDA''), (js ''TSLA'')] (fresh_page cold_remote))
     = cold_remote\<lparr>store := [sample_prediction (js ''AAPL'')],
                   received := [js ''AAPL'', js ''NVDA'', js ''TSLA'']\<rparr>"
  by (simp add: after_batch_def call_select_def call_analyze_def emit_def sample_services_def
        fresh_page_def cold_remote_def)

subsection \<open>analyzeStock\<close>

lemma analyzeStock_fulfilled: "fst (analyzeStock sv p) = Fulfilled"
  by (simp add: analyzeStock_def
        split: prod.splits awaited.splits option.splits completion.splits)

section \<open>The claims\<close>

subsection \<open>The symbol rotation\<close>




subsection \<open>Resolving the search text\<close>

text \<open>
  Claim C4. When the upper-cased input is one to five capital letters, the symbol to
  analyse is the upper-cased input and the page is left exactly as it was: no search
  request is issued, nothing is logged and the remote side is not touched. Upper-casing
  never shortens a string, so the length test of line 150 cannot fire in this case.
\<close>

theorem resolveSymbol_canonical:
  assumes "isSymbolFormat (toUpperCase (searchSymbol p))"
  shows "resolveSymbol sv p = (toUpperCase (searchSymbol p), p)"
proof -
  from assms have "length (toUpperCase (searchSymbol p)) \<le> 5"
    by (simp add: isSymbolFormat_def)
  with length_toUpperCase [of "searchSymbol p"] have "length (searchSymbol p) \<le> 5"
    by simp
  with assms show ?thesis
    by (simp add: resolveSymbol_def)
qed

theorem resolveSymbol_canonical_witness:
  "isSymbolFormat (toUpperCase (js ''aapl''))
   \<and> resolveSymbol sample_services ((fresh_page cold_remote)\<lparr>searchSymbol := js ''aapl''\<rparr>)
       = (js ''AAPL'', (fresh_page cold_remote)\<lparr>searchSymbol := js ''aapl''\<rparr>)
   \<and> isSymbolFormat (toUpperCase [223])
   \<and> resolveSymbol sample_services ((fresh_page cold_remote)\<lparr>searchSymbol := [223]\<rparr>)
       = (js ''SS'', (fresh_page cold_remote)\<lparr>searchSymbol := [223]\<rparr>)"
proof -
  have u1: "toUpperCase (js ''aapl'') = js ''AAPL''"
    by (simp add: js_def toUpperCase_ascii)
  have u2: "toUpperCase [223] = js ''SS''"
    by (rule toUpperCase_sharp_s)
  have f1: "isSymbolFormat (js ''AAPL'')" and f2: "isSymbolFormat (js ''SS'')"
    by (simp_all add: js_def isSymbolFormat_def isCapital_def)
  have h1: "isSymbolFormat (toUpperCase (searchSymbol
              ((fresh_page cold_remote)\<lparr>searchSymbol := js ''aapl''\<rparr>)))"
    by (simp add: u1 f1)
  have h2: "isSymbolFormat (toUpperCase (searchSymbol
              ((fresh_page cold_remote)\<lparr>searchSymbol := [223]\<rparr>)))"
    by (simp add: u2 f2)
  from resolveSymbol_canonical [OF h1, of sample_services]
       resolveSymbol_canonical [OF h2, of sample_services] u1 u2 f1 f2
  show ?thesis by simp
qed

subsection \<open>Blank input\<close>

text \<open>
  Claim C10. When the search text is empty or made only of code units that
  \<^verbatim>\<open>trim\<close> strips, \<^verbatim>\<open>analyzeStock\<close> ends at once and returns the page
  exactly as it was: no search, dispatch or refresh call, the same predictions and the
  same quotes.
\<close>

theorem analyzeStock_blank_is_noop:
  assumes "list_all isWhiteSpace (searchSymbol p)"
  shows "analyzeStock sv p = (Fulfilled, p)"
  using assms by (simp add: analyzeStock_def trim_empty_iff)

theorem analyzeStock_blank_is_noop_witness:
  "list_all isWhiteSpace [32, 9, 160, 8232, 12288, 65279]
   \<and> trim [32, 9, 160, 8232, 12288, 65279] = []
   \<and> analyzeStock sample_services
        ((fresh_page cold_remote)\<lparr>searchSymbol := [32, 9, 160, 8232, 12288, 65279]\<rparr>)
     = (Fulfilled, (fresh_page cold_remote)\<lparr>searchSymbol := [32, 9, 160, 8232, 12288, 65279]\<rparr>)
   \<and> analyzeStock sample_services (fresh_page cold_remote)
     = (Fulfilled, fresh_page cold_remote)"
proof -
  have w: "list_all isWhiteSpace [32, 9, 160, 8232, 12288, 65279]"
    by (simp add: isWhiteSpace_def)
  have t: "trim [32, 9, 160, 8232, 12288, 65279] = []"
    by (simp add: trim_def isWhiteSpace_def)
  have h1: "list_all isWhiteSpace (searchSymbol
     ((fresh_page cold_remote)\<lparr>searchSymbol := [32, 9, 160, 8232, 12288, 65279]\<rparr>))"
    using w by simp
  have h2: "list_all isWhiteSpace (searchSymbol (fresh_page cold_remote))"
    by (simp add: fresh_page_def)
  from analyzeStock_blank_is_noop [OF h1, of sample_services]
       analyzeStock_blank_is_noop [OF h2, of sample_services] w t
  show ?thesis by simp
qed

subsection \<open>A failing quote service\<close>

text \<open>
  Claim C8, as the code has it. When the quote call fails (it rejects, or resolves with an
  error), \<^verbatim>\<open>fetchCurrentQuotes\<close> still ends normally, so no caller fails because of
  it; the failure is logged, and the quote map the page holds is left as it was. The map
  is therefore empty after a failure only when it was empty before.
\<close>

theorem fetchCurrentQuotes_absorbs_failure:
  assumes "failed (fst (invoke_current_quotes sv symbols (world p)))"
  shows "fst (fetchCurrentQuotes sv symbols p) = Fulfilled
       \<and> currentQuotes (snd (fetchCurrentQuotes sv symbols p)) = currentQuotes p
       \<and> predictions (snd (fetchCurrentQuotes sv symbols p)) = predictions p
       \<and> trace (snd (fetchCurrentQuotes sv symbols p))
           = trace p @ [CurrentQuotes symbols, ConsoleError (js ''Error fetching current quotes:'')]"
  using assms
  by (cases "invoke_current_quotes sv symbols (world p)")
     (auto simp: fetchCurrentQuotes_def call_quotes_def
        split: awaited.splits option.splits elim: failed.elims)

theorem fetchCurrentQuotes_absorbs_failure_witness:
  "failed (fst (invoke_current_quotes sample_services [(js ''MSFT'')] (world stale_page)))
   \<and> fst (fetchCurrentQuotes sample_services [(js ''MSFT'')] stale_page) = Fulfilled
   \<and> currentQuotes (snd (fetchCurrentQuotes sample_services [(js ''MSFT'')] stale_page))
       = currentQuotes stale_page"
proof -
  have h: "failed (fst (invoke_current_quotes sample_services [(js ''MSFT'')] (world stale_page)))"
    by (simp add: sample_services_def stale_page_def fresh_page_def)
  from fetchCurrentQuotes_absorbs_failure [OF h] h show ?thesis by simp
qed

text \<open>
  Claim C8 as stated does not hold: on a page that already holds a quote, a failing quote
  call leaves that quote in place, so what the caller sees is not an empty mapping.
\<close>

theorem fetchCurrentQuotes_failure_keeps_stale_quotes:
  "failed (fst (invoke_current_quotes sample_services [(js ''MSFT'')] (world stale_page)))
   \<and> currentQuotes (snd (fetchCurrentQuotes sample_services [(js ''MSFT'')] stale_page)) (js ''MSFT'')
       = Some (sample_quote (js ''MSFT''))"
proof -
  have a: "failed (fst (invoke_current_quotes sample_services [(js ''MSFT'')] (world stale_page)))"
    by (simp add: sample_services_def stale_page_def fresh_page_def)
  have b: "currentQuotes (snd (fetchCurrentQuotes sample_services [(js ''MSFT'')] stale_page)) (js ''MSFT'')
       = Some (sample_quote (js ''MSFT''))"
    by (simp add: fetchCurrentQuotes_def call_quotes_def sample_services_def stale_page_def
          fresh_page_def)
  from a b show ?thesis by simp
qed

subsection \<open>Searching for a symbol\<close>

text \<open>
  Claim C5. When the upper-cased input is not one to five capital letters, exactly one
  search request is issued, and the symbol to analyse is decided by its outcome: the
  upper-cased input when the call rejects, when it resolves without data, or when the data
  carries no result list or an empty one; the symbol of the first result when there is at
  least one result. \<^verbatim>\<open>resolveSymbol\<close> is a total function into strings: every
  way the search can end is one of these cases, so a symbol is always produced.
\<close>

theorem resolveSymbol_search:
  assumes "\<not> isSymbolFormat (toUpperCase (searchSymbol p))"
      and "invoke_search_stocks sv (searchSymbol p) (world p) = (r, w)"
  shows "filter isSearch (trace (snd (resolveSymbol sv p)))
           = filter isSearch (trace p) @ [SearchStocks (searchSymbol p)]
       \<and> (\<forall>e. r = Rejects e \<longrightarrow> fst (resolveSymbol sv p) = toUpperCase (searchSymbol p))
       \<and> (\<forall>err. r = Resolves None err \<longrightarrow>
             fst (resolveSymbol sv p) = toUpperCase (searchSymbol p))
       \<and> (\<forall>sd err. r = Resolves (Some sd) err \<and> (results sd = None \<or> results sd = Some []) \<longrightarrow>
             fst (resolveSymbol sv p) = toUpperCase (searchSymbol p))
       \<and> (\<forall>sd err x xs. r = Resolves (Some sd) err \<and> results sd = Some (x # xs) \<longrightarrow>
             fst (resolveSymbol sv p) = result_symbol x)"
  using assms
  by (auto simp: resolveSymbol_def call_search_def Let_def
        split: awaited.splits option.splits list.splits)

text \<open>
  Three runs: the search finds the company, the search finds nothing, and the search
  rejects. In the last two the symbol is the input in capitals.
\<close>

theorem resolveSymbol_search_witness:
  "\<not> isSymbolFormat (toUpperCase (searchSymbol search_page))
   \<and> fst (resolveSymbol sample_services search_page) = js ''AAPL''
   \<and> filter isSearch (trace (snd (resolveSymbol sample_services search_page)))
       = [SearchStocks (js ''apple inc'')]
   \<and> \<not> isSymbolFormat (toUpperCase (searchSymbol nohit_page))
   \<and> fst (invoke_search_stocks sample_services (searchSymbol nohit_page) (world nohit_page))
       = Resolves (Some (SearchData (Some []))) None
   \<and> fst (resolveSymbol sample_services nohit_page) = js ''APPLE CORP''
   \<and> \<not> isSymbolFormat (toUpperCase (searchSymbol nosearch_page))
   \<and> fst (invoke_search_stocks sample_services (searchSymbol nosearch_page)
             (world nosearch_page))
       = Rejects (ServiceError ''search down'')
   \<and> fst (resolveSymbol sample_services nosearch_page) = js ''APPLE INC''"
proof -
  have u1: "toUpperCase (js ''apple inc'') = js ''APPLE INC''"
    by (simp add: js_def toUpperCase_ascii)
  have u2: "toUpperCase (js ''apple corp'') = js ''APPLE CORP''"
    by (simp add: js_def toUpperCase_ascii)
  have h1: "\<not> isSymbolFormat (toUpperCase (searchSymbol search_page))"
    by (simp add: search_page_def fresh_page_def u1 isSymbolFormat_def)
  have h2: "\<not> isSymbolFormat (toUpperCase (searchSymbol nohit_page))"
    by (simp add: nohit_page_def fresh_page_def u2 isSymbolFormat_def)
  have h3: "\<not> isSymbolFormat (toUpperCase (searchSymbol nosearch_page))"
    by (simp add: nosearch_page_def fresh_page_def u1 isSymbolFormat_def)
  have r1: "invoke_search_stocks sample_services (searchSymbol search_page) (world search_page)
             = (Resolves (Some (SearchData (Some [SearchResult (js ''AAPL'')]))) None,
                world search_page)"
    by (simp add: sample_services_def search_page_def fresh_page_def)
  have r2: "invoke_search_stocks sample_services (searchSymbol nohit_page) (world nohit_page)
             = (Resolves (Some (SearchData (Some []))) None, world nohit_page)"
    by (simp add: sample_services_def nohit_page_def fresh_page_def)
  have r3: "invoke_search_stocks sample_services (searchSymbol nosearch_page)
              (world nosearch_page)
             = (Rejects (ServiceError ''search down''), world nosearch_page)"
    by (simp add: sample_services_def nosearch_page_def fresh_page_def)
  from resolveSymbol_search [OF h1 r1]
  have a: "fst (resolveSymbol sample_services search_page) = js ''AAPL''"
      "filter isSearch (trace (snd (resolveSymbol sample_services search_page)))
         = [SearchStocks (js ''apple inc'')]"
    by (simp_all add: search_page_def fresh_page_def)
  from resolveSymbol_search [OF h2 r2]
  have b: "fst (resolveSymbol sample_services nohit_page) = js ''APPLE CORP''"
    by (simp add: nohit_page_def fresh_page_def u2)
  from resolveSymbol_search [OF h3 r3]
  have c: "fst (resolveSymbol sample_services nosearch_page) = js ''APPLE INC''"
    by (simp add: nosearch_page_def fresh_page_def u1)
  from h1 a h2 r2 b h3 r3 c show ?thesis
    by simp
qed

subsection \<open>Initialising the page\<close>



text \<open>
  Claim C3. In a run that takes the fallback path, whatever the outcome of each analysis
  request, \<^verbatim>\<open>initializePage\<close> ends normally; it reads the repository exactly once
  more, after the last analysis request, and issues no further analysis request; and the
  predictions it then holds are the ones that read returned (the list kept before, when
  that read itself fails).
\<close>

theorem initializePage_survives_partial_failure:
  assumes "select_predictions sv (world p) = (Resolves d err, w)"
      and "d = None \<or> d = Some []"
      and "todaysTrending now startOfYear = Some todays"
      and "select_predictions sv (world (after_batch sv todays p)) = (r, w')"
  shows "fst (initializePage sv now startOfYear p) = Fulfilled
       \<and> filter isDispatch (trace (after_batch sv todays p))
           = filter isDispatch (trace p) @ map AnalyzeStock todays
       \<and> filter isSelect (trace (after_batch sv todays p))
           = filter isSelect (trace p) @ [SelectPredictions]
       \<and> filter isSelect (trace (snd (initializePage sv now startOfYear p)))
           = filter isSelect (trace (after_batch sv todays p)) @ [SelectPredictions]
       \<and> filter isDispatch (trace (snd (initializePage sv now startOfYear p)))
           = filter isDispatch (trace (after_batch sv todays p))
       \<and> (\<forall>ds. r = Resolves (Some ds) None \<longrightarrow>
             predictions (snd (initializePage sv now startOfYear p)) = ds)
       \<and> (r = Resolves None None \<longrightarrow>
             predictions (snd (initializePage sv now startOfYear p)) = [])
       \<and> (failed r \<longrightarrow>
             predictions (snd (initializePage sv now startOfYear p)) = predictions p)"
proof -
  note fb = initializePage_fallback [OF assms(1,2,3)]
  note pr = initializePage_fallback_predictions [OF assms(1,2,3)]
  from initializePage_fallback_trace [OF assms(1,2,3)]
  obtain evs1 evs2 where tr:
      "trace (after_batch sv todays p)
         = trace p @ [SelectPredictions,
                      ConsoleLog (js ''Generating predictions for trending stocks:'')] @ evs1"
      "trace (snd (initializePage sv now startOfYear p))
         = trace (after_batch sv todays p) @ SelectPredictions # evs2"
      "filter isSelect evs1 = []" "filter isDispatch evs1 = map AnalyzeStock todays"
      "filter isSelect evs2 = []" "filter isDispatch evs2 = []"
    by blast
  have c1: "fst (initializePage sv now startOfYear p) = Fulfilled"
    by (simp add: fb)
  have c2: "filter isDispatch (trace (after_batch sv todays p))
              = filter isDispatch (trace p) @ map AnalyzeStock todays"
    by (simp add: tr)
  have c3: "filter isSelect (trace (after_batch sv todays p))
              = filter isSelect (trace p) @ [SelectPredictions]"
    by (simp add: tr)
  have c4: "filter isSelect (trace (snd (initializePage sv now startOfYear p)))
              = filter isSelect (trace (after_batch sv todays p)) @ [SelectPredictions]"
    by (simp add: tr(2,5))
  have c5: "filter isDispatch (trace (snd (initializePage sv now startOfYear p)))
              = filter isDispatch (trace (after_batch sv todays p))"
    by (simp add: tr(2,6))
  have c6: "\<forall>ds. r = Resolves (Some ds) None \<longrightarrow>
              predictions (snd (initializePage sv now startOfYear p)) = ds"
    using assms(4) fetchPredictions_Some [of sv "after_batch sv todays p"]
    by (simp add: pr(1))
  have c7: "r = Resolves None None \<longrightarrow>
              predictions (snd (initializePage sv now startOfYear p)) = []"
    using assms(4) fetchPredictions_None [of sv "after_batch sv todays p"]
    by (simp add: pr(1))
  have c8: "failed r \<longrightarrow>
              predictions (snd (initializePage sv now startOfYear p)) = predictions p"
    using assms(4) fetchPredictions_failed [of sv "after_batch sv todays p"]
    by (simp add: pr)
  from c1 c2 c3 c4 c5 c6 c7 c8 show ?thesis
    by (intro conjI)
qed

theorem initializePage_survives_partial_failure_witness:
  "select_predictions sample_services (world (fresh_page cold_remote))
     = (Resolves (Some []) None, cold_remote)
   \<and> todaysTrending sample_now sample_startOfYear = Some [(js ''AAPL''), (js ''NVDA''), (js ''TSLA'')]
   \<and> \<not> failed (fst (invoke_analyze_stock sample_services (js ''AAPL'') cold_remote))
   \<and> failed (fst (invoke_analyze_stock sample_services (js ''NVDA'') cold_remote))
   \<and> failed (fst (invoke_analyze_stock sample_services (js ''TSLA'') cold_remote))
   \<and> fst (initializePage sample_services sample_now sample_startOfYear (fresh_page cold_remote))
       = Fulfilled
   \<and> filter isSelect
        (trace (snd (initializePage sample_services sample_now sample_startOfYear
                       (fresh_page cold_remote))))
       = [SelectPredictions, SelectPredictions]
   \<and> predictions (snd (initializePage sample_services sample_now sample_startOfYear
                          (fresh_page cold_remote)))
       = [sample_prediction (js ''AAPL'')]"
proof -
  have h1: "select_predictions sample_services (world (fresh_page cold_remote))
              = (Resolves (Some []) None, cold_remote)"
    by (simp add: sample_services_def fresh_page_def cold_remote_def)
  have h2: "Some [] = None \<or> Some [] = Some ([] :: prediction list)"
    by simp
  have h4: "select_predictions sample_services
              (world (after_batch sample_services [(js ''AAPL''), (js ''NVDA''), (js ''TSLA'')]
                        (fresh_page cold_remote)))
              = (Resolves (Some [sample_prediction (js ''AAPL'')]) None,
                 cold_remote\<lparr>store := [sample_prediction (js ''AAPL'')],
                             received := [js ''AAPL'', js ''NVDA'', js ''TSLA'']\<rparr>)"
    by (simp add: sample_after_batch_world) (simp add: sample_services_def cold_remote_def)
  have f: "\<not> failed (fst (invoke_analyze_stock sample_services (js ''AAPL'') cold_remote))"
      "failed (fst (invoke_analyze_stock sample_services (js ''NVDA'') cold_remote))"
      "failed (fst (invoke_analyze_stock sample_services (js ''TSLA'') cold_remote))"
    by (simp_all add: sample_services_def cold_remote_def)
  note r = initializePage_survives_partial_failure [OF h1 h2 sample_todays h4]
  from r have c1: "fst (initializePage sample_services sample_now sample_startOfYear
                          (fresh_page cold_remote)) = Fulfilled"
    by blast
  from r have c2: "filter isSelect
        (trace (snd (initializePage sample_services sample_now sample_startOfYear
                       (fresh_page cold_remote))))
       = [SelectPredictions, SelectPredictions]"
    by (simp add: fresh_page_def)
  from r have c3: "predictions (snd (initializePage sample_services sample_now
                     sample_startOfYear (fresh_page cold_remote)))
       = [sample_prediction (js ''AAPL'')]"
    by blast
  from h1 sample_todays f c1 c2 c3 show ?thesis
    by (intro conjI)
qed

text \<open>
  Claim C1, as the code has it. Only a read whose call itself rejects ends
  \<^verbatim>\<open>initializePage\<close> with that error, before any analysis request. A read that
  resolves with an error and no data is not told apart from an empty repository: the
  fallback path runs, one analysis request per trending symbol is issued, and the function
  ends normally.
\<close>

theorem initializePage_read_failure:
  shows "(select_predictions sv (world p) = (Rejects e, w) \<longrightarrow>
            fst (initializePage sv now startOfYear p) = Rejected e
          \<and> trace (snd (initializePage sv now startOfYear p)) = trace p @ [SelectPredictions])
       \<and> (select_predictions sv (world p) = (Resolves None (Some e), w)
            \<and> todaysTrending now startOfYear = Some todays \<longrightarrow>
            fst (initializePage sv now startOfYear p) = Fulfilled
          \<and> filter isDispatch (trace (snd (initializePage sv now startOfYear p)))
              = filter isDispatch (trace p) @ map AnalyzeStock todays)"
proof (intro conjI impI)
  assume "select_predictions sv (world p) = (Rejects e, w)"
  then show "fst (initializePage sv now startOfYear p) = Rejected e"
    and "trace (snd (initializePage sv now startOfYear p)) = trace p @ [SelectPredictions]"
    by (simp_all add: initializePage_def call_select_def)
next
  assume a: "select_predictions sv (world p) = (Resolves None (Some e), w)
               \<and> todaysTrending now startOfYear = Some todays"
  have d: "(None :: prediction list option) = None \<or> None = Some ([] :: prediction list)"
    by simp
  from a have a1: "select_predictions sv (world p) = (Resolves None (Some e), w)"
    and a2: "todaysTrending now startOfYear = Some todays" by simp_all
  show "fst (initializePage sv now startOfYear p) = Fulfilled"
    by (simp add: initializePage_fallback [OF a1 d a2])
  from initializePage_fallback_trace [OF a1 d a2]
  obtain evs1 evs2 where
      "trace (after_batch sv todays p)
         = trace p @ [SelectPredictions,
                      ConsoleLog (js ''Generating predictions for trending stocks:'')] @ evs1"
      "trace (snd (initializePage sv now startOfYear p))
         = trace (after_batch sv todays p) @ SelectPredictions # evs2"
      "filter isDispatch evs1 = map AnalyzeStock todays" "filter isDispatch evs2 = []"
    by blast
  then show "filter isDispatch (trace (snd (initializePage sv now startOfYear p)))
           = filter isDispatch (trace p) @ map AnalyzeStock todays"
    by simp
qed

theorem initializePage_read_failure_witness:
  "select_predictions unreachable_services (world (fresh_page cold_remote))
     = (Rejects (ServiceError ''unreachable''), cold_remote)
   \<and> fst (initializePage unreachable_services sample_now sample_startOfYear
             (fresh_page cold_remote)) = Rejected (ServiceError ''unreachable'')
   \<and> trace (snd (initializePage unreachable_services sample_now sample_startOfYear
                    (fresh_page cold_remote))) = [SelectPredictions]
   \<and> select_predictions sample_services (world (fresh_page broken_remote))
       = (Resolves None (Some (ServiceError ''read failed'')), broken_remote)
   \<and> todaysTrending sample_now sample_startOfYear = Some [(js ''AAPL''), (js ''NVDA''), (js ''TSLA'')]
   \<and> fst (initializePage sample_services sample_now sample_startOfYear
             (fresh_page broken_remote)) = Fulfilled
   \<and> filter isDispatch
        (trace (snd (initializePage sample_services sample_now sample_startOfYear
                       (fresh_page broken_remote))))
       = [AnalyzeStock (js ''AAPL''), AnalyzeStock (js ''NVDA''), AnalyzeStock (js ''TSLA'')]"
proof -
  have h1: "select_predictions unreachable_services (world (fresh_page cold_remote))
     = (Rejects (ServiceError ''unreachable''), cold_remote)"
    by (simp add: unreachable_services_def fresh_page_def)
  have h2: "select_predictions sample_services (world (fresh_page broken_remote))
       = (Resolves None (Some (ServiceError ''read failed'')), broken_remote)"
    by (simp add: sample_services_def fresh_page_def broken_remote_def)
  from initializePage_read_failure
         [of unreachable_services "fresh_page cold_remote" "ServiceError ''unreachable''"
             cold_remote sample_now sample_startOfYear]
       h1
  have a: "fst (initializePage unreachable_services sample_now sample_startOfYear
             (fresh_page cold_remote)) = Rejected (ServiceError ''unreachable'')"
      "trace (snd (initializePage unreachable_services sample_now sample_startOfYear
                    (fresh_page cold_remote))) = [SelectPredictions]"
    by (simp_all add: fresh_page_def)
  from initializePage_read_failure
         [of sample_services "fresh_page broken_remote" "ServiceError ''read failed''"
             broken_remote sample_now sample_startOfYear "[(js ''AAPL''), (js ''NVDA''), (js ''TSLA'')]"]
       h2 sample_todays
  have b: "fst (initializePage sample_services sample_now sample_startOfYear
             (fresh_page broken_remote)) = Fulfilled"
      "filter isDispatch
        (trace (snd (initializePage sample_services sample_now sample_startOfYear
                       (fresh_page broken_remote))))
       = [AnalyzeStock (js ''AAPL''), AnalyzeStock (js ''NVDA''), AnalyzeStock (js ''TSLA'')]"
    by (simp_all add: fresh_page_def)
  from h1 a h2 sample_todays b show ?thesis
    by (intro conjI)
qed

text \<open>
  Claim C1 as stated does not hold: with a repository whose read resolves with an error,
  \<^verbatim>\<open>initializePage\<close> ends normally, not with that error, and the three analysis
  requests of the day have been issued.
\<close>

theorem initializePage_read_error_enters_fallback:
  "fst (select_predictions sample_services (world (fresh_page broken_remote)))
     = Resolves None (Some (ServiceError ''read failed''))
   \<and> fst (initializePage sample_services sample_now sample_startOfYear
             (fresh_page broken_remote)) = Fulfilled
   \<and> trace (snd (initializePage sample_services sample_now sample_startOfYear
                    (fresh_page broken_remote)))
       = [SelectPredictions, ConsoleLog (js ''Generating predictions for trending stocks:''),
          AnalyzeStock (js ''AAPL''), AnalyzeStock (js ''NVDA''),
          ConsoleError (js ''Error analyzing trending stock NVDA:''), AnalyzeStock (js ''TSLA''),
          SelectPredictions, ConsoleError (js ''Error fetching predictions:'')]"
  by code_simp

text \<open>
  Claim C9, as the code has it. A run of \<^verbatim>\<open>initializePage\<close> that obtains a
  non-empty list of predictions, from the first read or from the read after the fallback
  generation, issues exactly one quote request, for the symbols of that list with each
  symbol once, in order of first occurrence. A run that obtains an empty list, or whose
  second read fails, issues no quote request.
\<close>

theorem initializePage_enrichment:
  assumes "select_predictions sv (world p) = (Resolves d err, w)"
      and "todaysTrending now startOfYear = Some todays"
  shows "(\<forall>ds. d = Some ds \<and> ds \<noteq> [] \<longrightarrow>
            predictions (snd (initializePage sv now startOfYear p)) = ds
          \<and> filter isQuotes (trace (snd (initializePage sv now startOfYear p)))
              = filter isQuotes (trace p) @ [CurrentQuotes (new_Set (map symbol ds))])
       \<and> (d = None \<or> d = Some [] \<longrightarrow>
            filter isQuotes (trace (snd (initializePage sv now startOfYear p)))
              = filter isQuotes (trace p)
                @ quotes_for (fst (select_predictions sv (world (after_batch sv todays p)))))
       \<and> (\<forall>ds :: prediction list.
            distinct (new_Set (map symbol ds))
          \<and> set (new_Set (map symbol ds)) = symbol ` set ds)"
proof (intro conjI allI impI)
  fix ds
  assume a: "d = Some ds \<and> ds \<noteq> []"
  then have sel: "select_predictions sv (world p) = (Resolves (Some ds) err, w)"
    and ne: "ds \<noteq> []" using assms(1) by simp_all
  let ?q = "(snd (call_select sv (p\<lparr>loading := True\<rparr>)))\<lparr>predictions := ds\<rparr>"
  obtain evs where evs:
      "trace (snd (fetchCurrentQuotes sv (new_Set (map symbol ds)) ?q))
         = trace ?q @ CurrentQuotes (new_Set (map symbol ds)) # evs"
      "filter isQuotes evs = []"
    using fetchCurrentQuotes_trace [of sv "new_Set (map symbol ds)" ?q] by blast
  show "predictions (snd (initializePage sv now startOfYear p)) = ds"
    by (simp add: initializePage_existing [OF sel ne] fetchCurrentQuotes_predictions)
  show "filter isQuotes (trace (snd (initializePage sv now startOfYear p)))
          = filter isQuotes (trace p) @ [CurrentQuotes (new_Set (map symbol ds))]"
    using evs by (simp add: initializePage_existing [OF sel ne])
next
  assume d: "d = None \<or> d = Some []"
  from initializePage_fallback_trace [OF assms(1) d assms(2)]
  obtain evs1 evs2 where
      "trace (after_batch sv todays p)
         = trace p @ [SelectPredictions,
                      ConsoleLog (js ''Generating predictions for trending stocks:'')] @ evs1"
      "trace (snd (initializePage sv now startOfYear p))
         = trace (after_batch sv todays p) @ SelectPredictions # evs2"
      "filter isQuotes evs1 = []"
      "filter isQuotes evs2
         = quotes_for (fst (select_predictions sv (world (after_batch sv todays p))))"
    by blast
  then show "filter isQuotes (trace (snd (initializePage sv now startOfYear p)))
              = filter isQuotes (trace p)
                @ quotes_for (fst (select_predictions sv (world (after_batch sv todays p))))"
    by simp
next
  fix ds :: "prediction list"
  show "distinct (new_Set (map symbol ds))"
    by (rule distinct_new_Set)
  show "set (new_Set (map symbol ds)) = symbol ` set ds"
    by (simp add: set_new_Set)
qed

theorem initializePage_enrichment_witness:
  "select_predictions sample_services (world (fresh_page warm_remote))
     = (Resolves (Some [sample_prediction (js ''MSFT''), sample_prediction (js ''AAPL''),
                        sample_prediction (js ''MSFT'')]) None, warm_remote)
   \<and> todaysTrending sample_now sample_startOfYear = Some [(js ''AAPL''), (js ''NVDA''), (js ''TSLA'')]
   \<and> filter isQuotes
        (trace (snd (initializePage sample_services sample_now sample_startOfYear
                       (fresh_page warm_remote))))
       = [CurrentQuotes [(js ''MSFT''), (js ''AAPL'')]]"
proof -
  have h: "select_predictions sample_services (world (fresh_page warm_remote))
     = (Resolves (Some [sample_prediction (js ''MSFT''), sample_prediction (js ''AAPL''),
                        sample_prediction (js ''MSFT'')]) None, warm_remote)"
    by (simp add: sample_services_def fresh_page_def warm_remote_def)
  from initializePage_enrichment [OF h sample_todays]
  have "filter isQuotes
        (trace (snd (initializePage sample_services sample_now sample_startOfYear
                       (fresh_page warm_remote))))
       = filter isQuotes (trace (fresh_page warm_remote))
         @ [CurrentQuotes (new_Set (map symbol [sample_prediction (js ''MSFT''),
              sample_prediction (js ''AAPL''), sample_prediction (js ''MSFT'')]))]"
    by simp
  then have "filter isQuotes
        (trace (snd (initializePage sample_services sample_now sample_startOfYear
                       (fresh_page warm_remote))))
       = [CurrentQuotes [(js ''MSFT''), (js ''AAPL'')]]"
    by (simp add: fresh_page_def new_Set_def set_add_def sample_prediction_def)
  with h sample_todays show ?thesis
    by (intro conjI)
qed

text \<open>
  Claim C9 as stated does not hold: when the inference service produces nothing, the run
  ends with an empty list of predictions and has issued no quote request at all.
\<close>

theorem initializePage_empty_list_no_quote_request:
  "fst (initializePage sample_services sample_now sample_startOfYear (fresh_page idle_remote))
     = Fulfilled
   \<and> predictions (snd (initializePage sample_services sample_now sample_startOfYear
                          (fresh_page idle_remote))) = []
   \<and> trace (snd (initializePage sample_services sample_now sample_startOfYear
                    (fresh_page idle_remote)))
       = [SelectPredictions, ConsoleLog (js ''Generating predictions for trending stocks:''),
          AnalyzeStock (js ''AAPL''), AnalyzeStock (js ''NVDA''),
          ConsoleError (js ''Error analyzing trending stock NVDA:''), AnalyzeStock (js ''TSLA''),
          SelectPredictions]
   \<and> filter isQuotes
        (trace (snd (initializePage sample_services sample_now sample_startOfYear
                       (fresh_page idle_remote)))) = []"
  by code_simp

subsection \<open>A failing analysis on demand\<close>

text \<open>
  Claim C7, as the code has it. When the search text is not blank and the analysis
  request for the resolved symbol fails (the call resolves with an error, or rejects),
  \<^verbatim>\<open>analyzeStock\<close> writes the failure to the error console as the last thing it
  does and ends normally: nothing is returned or thrown to its caller. It reads the
  repository not at all and requests no quotes, and leaves the predictions, the quotes and
  the search text as they were.
\<close>

theorem analyzeStock_dispatch_failure:
  assumes "\<not> list_all isWhiteSpace (searchSymbol p)"
      and "resolveSymbol sv (p\<lparr>analyzing := True\<rparr>) = (symbolToAnalyze, p1)"
      and "failed (fst (invoke_analyze_stock sv symbolToAnalyze (world p1)))"
  shows "fst (analyzeStock sv p) = Fulfilled
       \<and> trace (snd (analyzeStock sv p))
           = trace p1 @ [AnalyzeStock symbolToAnalyze,
                         ConsoleError
                           (case fst (invoke_analyze_stock sv symbolToAnalyze (world p1)) of
                              Rejects e \<Rightarrow> (js ''Error analyzing stock:'')
                            | Resolves d err \<Rightarrow> (js ''Analysis error:''))]
       \<and> filter isSelect (trace (snd (analyzeStock sv p))) = filter isSelect (trace p)
       \<and> filter isQuotes (trace (snd (analyzeStock sv p))) = filter isQuotes (trace p)
       \<and> predictions (snd (analyzeStock sv p)) = predictions p
       \<and> currentQuotes (snd (analyzeStock sv p)) = currentQuotes p
       \<and> searchSymbol (snd (analyzeStock sv p)) = searchSymbol p"
proof -
  have nb: "trim (searchSymbol p) \<noteq> []"
    using assms(1) by (simp add: trim_empty_iff)
  have p1: "p1 = snd (resolveSymbol sv (p\<lparr>analyzing := True\<rparr>))"
    by (simp add: assms(2))
  have keep: "predictions p1 = predictions p" "currentQuotes p1 = currentQuotes p"
    "searchSymbol p1 = searchSymbol p"
    "filter isSelect (trace p1) = filter isSelect (trace p)"
    "filter isQuotes (trace p1) = filter isQuotes (trace p)"
    by (simp_all add: p1)
  obtain r w where rw: "invoke_analyze_stock sv symbolToAnalyze (world p1) = (r, w)"
    by (cases "invoke_analyze_stock sv symbolToAnalyze (world p1)")
  with assms(3) have fr: "failed r" by simp
  show ?thesis
  proof (cases r)
    case (Rejects e)
    then show ?thesis
      using keep by (simp add: analyzeStock_def nb assms(2) call_analyze_def rw)
  next
    case (Resolves d err)
    with fr obtain e where "err = Some e"
      by (cases err) simp_all
    with Resolves show ?thesis
      using keep by (simp add: analyzeStock_def nb assms(2) call_analyze_def rw)
  qed
qed

theorem analyzeStock_dispatch_failure_witness:
  "\<not> list_all isWhiteSpace (searchSymbol tesla_page)
   \<and> resolveSymbol sample_services (tesla_page\<lparr>analyzing := True\<rparr>)
       = (js ''TSLA'', tesla_page\<lparr>analyzing := True\<rparr>)
   \<and> failed (fst (invoke_analyze_stock sample_services (js ''TSLA'')
                    (world (tesla_page\<lparr>analyzing := True\<rparr>))))
   \<and> trace (snd (analyzeStock sample_services tesla_page))
       = [AnalyzeStock (js ''TSLA''), ConsoleError (js ''Analysis error:'')]
   \<and> predictions (snd (analyzeStock sample_services tesla_page))
       = [sample_prediction (js ''MSFT'')]"
proof -
  have h1: "\<not> list_all isWhiteSpace (searchSymbol tesla_page)"
    by (simp add: tesla_page_def fresh_page_def js_def isWhiteSpace_def)
  have u: "toUpperCase (js ''tsla'') = js ''TSLA''"
    by (simp add: js_def toUpperCase_ascii)
  have f: "isSymbolFormat (js ''TSLA'')"
    by (simp add: js_def isSymbolFormat_def isCapital_def)
  have h2: "resolveSymbol sample_services (tesla_page\<lparr>analyzing := True\<rparr>)
       = (js ''TSLA'', tesla_page\<lparr>analyzing := True\<rparr>)"
    by (simp add: resolveSymbol_def tesla_page_def fresh_page_def u f)
  have h3: "failed (fst (invoke_analyze_stock sample_services (js ''TSLA'')
                    (world (tesla_page\<lparr>analyzing := True\<rparr>))))"
    by (simp add: sample_services_def)
  note r = analyzeStock_dispatch_failure [OF h1 h2 h3]
  from r have c1: "trace (snd (analyzeStock sample_services tesla_page))
       = [AnalyzeStock (js ''TSLA''), ConsoleError (js ''Analysis error:'')]"
    by (simp add: sample_services_def tesla_page_def fresh_page_def)
  from r have c2: "predictions (snd (analyzeStock sample_services tesla_page))
       = [sample_prediction (js ''MSFT'')]"
    by (simp add: tesla_page_def fresh_page_def)
  from h1 h2 h3 c1 c2 show ?thesis
    by (intro conjI)
qed

text \<open>
  Claim C7 as stated does not hold where it says that the operation reports failure: in a
  run whose analysis request resolves with an error, \<^verbatim>\<open>analyzeStock\<close> ends exactly
  as a successful run does, fulfilled and without a value, so its caller is told nothing.
\<close>

theorem analyzeStock_failure_not_returned:
  "failed (fst (invoke_analyze_stock sample_services (js ''TSLA'') (world tesla_page)))
   \<and> fst (resolveSymbol sample_services (tesla_page\<lparr>analyzing := True\<rparr>)) = js ''TSLA''
   \<and> fst (analyzeStock sample_services tesla_page) = Fulfilled"
proof -
  have a: "failed (fst (invoke_analyze_stock sample_services (js ''TSLA'') (world tesla_page)))"
    by (simp add: sample_services_def)
  have u: "toUpperCase (js ''tsla'') = js ''TSLA''"
    by (simp add: js_def toUpperCase_ascii)
  have f: "isSymbolFormat (js ''TSLA'')"
    by (simp add: js_def isSymbolFormat_def isCapital_def)
  have r: "resolveSymbol sample_services (tesla_page\<lparr>analyzing := True\<rparr>)
             = (js ''TSLA'', tesla_page\<lparr>analyzing := True\<rparr>)"
    by (simp add: resolveSymbol_def tesla_page_def fresh_page_def u f)
  have c: "fst (analyzeStock sample_services tesla_page) = Fulfilled"
    by (rule analyzeStock_fulfilled)
  from a r c show ?thesis by simp
qed

end
